theory Spec2Isabelle
  imports Complex_Main
begin

section \<open>JavaScript values\<close>

text \<open>
  The server is JavaScript, so every cell of a raw row and every field of a record is a
  dynamically typed value. A number is an IEEE double in the program; here a finite number
  is a real, next to \<open>NaN\<close> and the two infinities, and \<open>-0\<close> is \<open>0\<close>. Sums, parsed
  numbers and the page arithmetic are exact, which is what the program computes on whole
  numbers up to \<open>2^53\<close>; the product in the stock classifier is rounded as a double
  product is. The cells that the sheet reader produces are numbers, strings and booleans;
  a column that a row does not have reads as \<open>undefined\<close>.
\<close>

datatype jsnum = NaN | Fin real | PInf | NInf

datatype jsval = Undefined | Bool bool | Num jsnum | Str string

text \<open>
  What the host supplies and the repository does not define: how a number that is not a
  small integer prints (\<open>Number::toString\<close>), \<open>Date.parse\<close> (the time value in
  milliseconds, \<open>None\<close> for an invalid date), and, for the row with index \<open>i\<close> of a load,
  the calendar date of the clock (\<open>new Date().toISOString().split('T')[0]\<close>) and the
  token \<open>Math.random().toString(36).substr(2, 9)\<close>.
\<close>

record host =
  numToString :: "real \<Rightarrow> string"
  dateParse :: "string \<Rightarrow> real option"
  today :: "nat \<Rightarrow> string"
  randomToken :: "nat \<Rightarrow> string"

subsection \<open>Numbers\<close>

fun num_neg :: "jsnum \<Rightarrow> jsnum" where
  "num_neg NaN = NaN"
| "num_neg (Fin x) = Fin (- x)"
| "num_neg PInf = NInf"
| "num_neg NInf = PInf"

fun num_plus :: "jsnum \<Rightarrow> jsnum \<Rightarrow> jsnum" where
  "num_plus NaN _ = NaN"
| "num_plus _ NaN = NaN"
| "num_plus (Fin x) (Fin y) = Fin (x + y)"
| "num_plus PInf NInf = NaN"
| "num_plus NInf PInf = NaN"
| "num_plus PInf _ = PInf"
| "num_plus _ PInf = PInf"
| "num_plus NInf _ = NInf"
| "num_plus _ NInf = NInf"

definition num_minus :: "jsnum \<Rightarrow> jsnum \<Rightarrow> jsnum" where
  "num_minus a b = num_plus a (num_neg b)"

fun num_sign :: "jsnum \<Rightarrow> int" where
  "num_sign NaN = 0"
| "num_sign (Fin x) = (if x < 0 then - 1 else if x = 0 then 0 else 1)"
| "num_sign PInf = 1"
| "num_sign NInf = - 1"

fun num_times :: "jsnum \<Rightarrow> jsnum \<Rightarrow> jsnum" where
  "num_times NaN _ = NaN"
| "num_times _ NaN = NaN"
| "num_times (Fin x) (Fin y) = Fin (x * y)"
| "num_times a b =
     (if num_sign a * num_sign b = 0 then NaN
      else if num_sign a * num_sign b < 0 then NInf else PInf)"

text \<open>\<open>a < b\<close> on numbers: false as soon as one side is \<open>NaN\<close>.\<close>

fun num_lt :: "jsnum \<Rightarrow> jsnum \<Rightarrow> bool" where
  "num_lt NaN _ = False"
| "num_lt _ NaN = False"
| "num_lt (Fin x) (Fin y) = (x < y)"
| "num_lt NInf NInf = False"
| "num_lt NInf _ = True"
| "num_lt _ NInf = False"
| "num_lt PInf _ = False"
| "num_lt _ PInf = True"

definition num_le :: "jsnum \<Rightarrow> jsnum \<Rightarrow> bool" where
  "num_le a b = (a \<noteq> NaN \<and> b \<noteq> NaN \<and> (num_lt a b \<or> a = b))"

text \<open>\<open>a || b\<close> on numbers: \<open>0\<close> and \<open>NaN\<close> are the falsy numbers.\<close>

definition num_truthy :: "jsnum \<Rightarrow> bool" where
  "num_truthy n = (n \<noteq> NaN \<and> n \<noteq> Fin 0)"

definition num_or :: "jsnum \<Rightarrow> jsnum \<Rightarrow> jsnum" where
  "num_or a b = (if num_truthy a then a else b)"

subsection \<open>Truthiness and \<open>||\<close>\<close>

fun truthy :: "jsval \<Rightarrow> bool" where
  "truthy Undefined = False"
| "truthy (Bool b) = b"
| "truthy (Num n) = num_truthy n"
| "truthy (Str s) = (s \<noteq> [])"

definition js_or :: "jsval \<Rightarrow> jsval \<Rightarrow> jsval" where
  "js_or a b = (if truthy a then a else b)"

subsection \<open>Numbers to strings\<close>

definition digit_char :: "nat \<Rightarrow> char" where
  "digit_char d = ''0123456789'' ! d"

fun show_nat :: "nat \<Rightarrow> string" where
  "show_nat n =
     (if n < 10 then [digit_char n] else show_nat (n div 10) @ [digit_char (n mod 10)])"

declare show_nat.simps [simp del]

definition show_int :: "int \<Rightarrow> string" where
  "show_int i = (if i < 0 then CHR ''-'' # show_nat (nat (- i)) else show_nat (nat i))"

text \<open>
  \<open>Number::toString\<close>: an integer below \<open>10^21\<close> in magnitude prints as its decimal
  digits; every other finite number prints as the host says (the shortest digits that read
  back as the same double, in exponent form from \<open>10^21\<close> on).
\<close>

definition Number_toString :: "host \<Rightarrow> jsnum \<Rightarrow> string" where
  "Number_toString h n =
     (case n of
        NaN \<Rightarrow> ''NaN''
      | PInf \<Rightarrow> ''Infinity''
      | NInf \<Rightarrow> ''-Infinity''
      | Fin x \<Rightarrow>
          if of_int \<lfloor>x\<rfloor> = x \<and> \<bar>x\<bar> < 10 ^ 21 then show_int \<lfloor>x\<rfloor> else numToString h x)"

fun ToString :: "host \<Rightarrow> jsval \<Rightarrow> string" where
  "ToString h Undefined = ''undefined''"
| "ToString h (Bool b) = (if b then ''true'' else ''false'')"
| "ToString h (Num n) = Number_toString h n"
| "ToString h (Str s) = s"

subsection \<open>Strings to numbers: \<open>parseInt\<close>, \<open>parseFloat\<close>, \<open>ToNumber\<close>\<close>

text \<open>
  A string is the list of the bytes of its UTF-8 form. The characters that \<open>parseInt\<close>,
  \<open>parseFloat\<close> and \<open>ToNumber\<close> skip as white space are the JavaScript white space
  and line terminators: tab, line feed, vertical tab, form feed, carriage return, space,
  U+00A0, U+1680, U+2000 to U+200A, U+2028, U+2029, U+202F, U+205F, U+3000 and U+FEFF,
  each given here by its bytes. Letter case is ASCII letter case.
\<close>

definition white_space :: "string list" where
  "white_space =
     [[CHR 0x09], [CHR 0x0A], [CHR 0x0B], [CHR 0x0C], [CHR 0x0D], [CHR 0x20],
      [CHR 0xC2, CHR 0xA0],
      [CHR 0xE1, CHR 0x9A, CHR 0x80],
      [CHR 0xE2, CHR 0x80, CHR 0x80], [CHR 0xE2, CHR 0x80, CHR 0x81],
      [CHR 0xE2, CHR 0x80, CHR 0x82], [CHR 0xE2, CHR 0x80, CHR 0x83],
      [CHR 0xE2, CHR 0x80, CHR 0x84], [CHR 0xE2, CHR 0x80, CHR 0x85],
      [CHR 0xE2, CHR 0x80, CHR 0x86], [CHR 0xE2, CHR 0x80, CHR 0x87],
      [CHR 0xE2, CHR 0x80, CHR 0x88], [CHR 0xE2, CHR 0x80, CHR 0x89],
      [CHR 0xE2, CHR 0x80, CHR 0x8A],
      [CHR 0xE2, CHR 0x80, CHR 0xA8], [CHR 0xE2, CHR 0x80, CHR 0xA9],
      [CHR 0xE2, CHR 0x80, CHR 0xAF],
      [CHR 0xE2, CHR 0x81, CHR 0x9F],
      [CHR 0xE3, CHR 0x80, CHR 0x80],
      [CHR 0xEF, CHR 0xBB, CHR 0xBF]]"

text \<open>The first bytes of the white-space characters.\<close>

definition ws_heads :: string where
  "ws_heads =
     [CHR 0x09, CHR 0x0A, CHR 0x0B, CHR 0x0C, CHR 0x0D, CHR 0x20,
      CHR 0xC2, CHR 0xE1, CHR 0xE2, CHR 0xE3, CHR 0xEF]"

definition starts_with :: "string \<Rightarrow> string \<Rightarrow> bool" where
  "starts_with w s = (take (length w) s = w)"

text \<open>
  The number of bytes of the white-space character that a string begins with, 0 when it
  begins with none; \<open>ws_width_rev\<close> is the same for the end of a string, read on the
  reversed string.
\<close>

definition ws_width :: "string \<Rightarrow> nat" where
  "ws_width s =
     (case List.find (\<lambda>w. starts_with w s) white_space of
        None \<Rightarrow> 0
      | Some w \<Rightarrow> length w)"

definition ws_width_rev :: "string \<Rightarrow> nat" where
  "ws_width_rev r =
     (case List.find (\<lambda>w. starts_with (rev w) r) white_space of
        None \<Rightarrow> 0
      | Some w \<Rightarrow> length w)"

fun skip_ws :: "string \<Rightarrow> string" where
  "skip_ws [] = []"
| "skip_ws (c # cs) =
     (if ws_width (c # cs) = 0 then c # cs else skip_ws (drop (ws_width (c # cs) - 1) cs))"

fun skip_ws_rev :: "string \<Rightarrow> string" where
  "skip_ws_rev [] = []"
| "skip_ws_rev (c # cs) =
     (if ws_width_rev (c # cs) = 0 then c # cs
      else skip_ws_rev (drop (ws_width_rev (c # cs) - 1) cs))"

declare skip_ws.simps(2) [simp del]

declare skip_ws_rev.simps(2) [simp del]

definition digit_val :: "char \<Rightarrow> nat option" where
  "digit_val c =
     map_of (zip ''0123456789abcdefABCDEF''
       [0, 1, 2, 3, 4, 5, 6, 7, 8, 9, 10, 11, 12, 13, 14, 15, 10, 11, 12, 13, 14, 15]) c"

definition is_digit_in :: "nat \<Rightarrow> char \<Rightarrow> bool" where
  "is_digit_in r c = (case digit_val c of None \<Rightarrow> False | Some d \<Rightarrow> d < r)"

definition digit_num :: "char \<Rightarrow> nat" where
  "digit_num c = (case digit_val c of None \<Rightarrow> 0 | Some d \<Rightarrow> d)"

definition digits_value :: "nat \<Rightarrow> string \<Rightarrow> nat" where
  "digits_value r ds = foldl (\<lambda>a c. a * r + digit_num c) 0 ds"

definition is_sign :: "string \<Rightarrow> bool" where
  "is_sign s = (case s of [] \<Rightarrow> False | c # _ \<Rightarrow> c = CHR ''+'' \<or> c = CHR ''-'')"

definition is_minus :: "string \<Rightarrow> bool" where
  "is_minus s = (case s of [] \<Rightarrow> False | c # _ \<Rightarrow> c = CHR ''-'')"

definition strip_sign :: "string \<Rightarrow> string" where
  "strip_sign s = (if is_sign s then tl s else s)"

text \<open>
  \<open>parseInt(s)\<close> with no radix: skip leading white space, read a sign, switch to radix 16
  after \<open>0x\<close> or \<open>0X\<close>, read the longest run of digits; no digit at all is \<open>NaN\<close>, here
  \<open>None\<close>.
\<close>

definition parseInt_str :: "string \<Rightarrow> int option" where
  "parseInt_str s =
     (let s1 = skip_ws s;
          s2 = strip_sign s1;
          hex = (take 2 s2 = ''0x'' \<or> take 2 s2 = ''0X'');
          r = (if hex then 16 else 10);
          s3 = (if hex then drop 2 s2 else s2);
          ds = takeWhile (is_digit_in r) s3
      in if ds = [] then None
         else Some ((if is_minus s1 then - 1 else 1) * int (digits_value r ds)))"

definition parseInt :: "host \<Rightarrow> jsval \<Rightarrow> int option" where
  "parseInt h v = parseInt_str (ToString h v)"

text \<open>\<open>parseInt(x) || 0\<close>: \<open>NaN\<close> and \<open>0\<close> both give \<open>0\<close>.\<close>

definition or0 :: "int option \<Rightarrow> int" where
  "or0 r = (case r of None \<Rightarrow> 0 | Some n \<Rightarrow> n)"

definition or1 :: "int option \<Rightarrow> int" where
  "or1 r = (case r of None \<Rightarrow> 1 | Some n \<Rightarrow> if n = 0 then 1 else n)"

definition or50 :: "int option \<Rightarrow> int" where
  "or50 r = (case r of None \<Rightarrow> 50 | Some n \<Rightarrow> if n = 0 then 50 else n)"

definition pow10 :: "int \<Rightarrow> real" where
  "pow10 e = (if 0 \<le> e then 10 ^ nat e else 1 / 10 ^ nat (- e))"

definition is_dec :: "char \<Rightarrow> bool" where
  "is_dec c = is_digit_in 10 c"

text \<open>An exponent part \<open>e\<close>, sign, digits; without digits there is no exponent part.\<close>

definition exponent_part :: "string \<Rightarrow> int \<times> string" where
  "exponent_part s =
     (case s of
        [] \<Rightarrow> (0, s)
      | c # rest \<Rightarrow>
          if c = CHR ''e'' \<or> c = CHR ''E'' then
            (let ds = takeWhile is_dec (strip_sign rest)
             in if ds = [] then (0, s)
                else ((if is_minus rest then - 1 else 1) * int (digits_value 10 ds),
                      dropWhile is_dec (strip_sign rest)))
          else (0, s))"

text \<open>
  The longest prefix that is an unsigned decimal literal (\<open>Infinity\<close>, \<open>12\<close>, \<open>12.\<close>,
  \<open>12.5e3\<close>, \<open>.5\<close>), with its value and the rest of the string.
\<close>

definition unsigned_decimal :: "string \<Rightarrow> (jsnum \<times> string) option" where
  "unsigned_decimal s =
     (if take 8 s = ''Infinity'' then Some (PInf, drop 8 s)
      else
        let ip = takeWhile is_dec s; r1 = dropWhile is_dec s
        in if take 1 r1 = ''.'' then
             (let fp = takeWhile is_dec (tl r1); r2 = dropWhile is_dec (tl r1)
              in if ip = [] \<and> fp = [] then None
                 else Some (Fin ((real (digits_value 10 ip)
                                   + real (digits_value 10 fp) / 10 ^ length fp)
                                 * pow10 (fst (exponent_part r2))),
                            snd (exponent_part r2)))
           else if ip = [] then None
           else Some (Fin (real (digits_value 10 ip) * pow10 (fst (exponent_part r1))),
                      snd (exponent_part r1)))"

definition str_decimal :: "string \<Rightarrow> (jsnum \<times> string) option" where
  "str_decimal s =
     (case unsigned_decimal (strip_sign s) of
        None \<Rightarrow> None
      | Some (v, rest) \<Rightarrow> Some (if is_minus s then num_neg v else v, rest))"

definition parseFloat_str :: "string \<Rightarrow> jsnum" where
  "parseFloat_str s =
     (case str_decimal (skip_ws s) of None \<Rightarrow> NaN | Some (v, _) \<Rightarrow> v)"

definition parseFloat :: "host \<Rightarrow> jsval \<Rightarrow> jsnum" where
  "parseFloat h v = parseFloat_str (ToString h v)"

definition trim :: "string \<Rightarrow> string" where
  "trim s = rev (skip_ws_rev (rev (skip_ws s)))"

definition radix_literal :: "nat \<Rightarrow> string \<Rightarrow> jsnum" where
  "radix_literal r ds =
     (if ds \<noteq> [] \<and> list_all (is_digit_in r) ds then Fin (real (digits_value r ds)) else NaN)"

text \<open>\<open>ToNumber\<close> of a string: the whole trimmed string must be one numeric literal.\<close>

definition StringToNumber :: "string \<Rightarrow> jsnum" where
  "StringToNumber s =
     (let t = trim s
      in if t = [] then Fin 0
         else if take 2 t = ''0x'' \<or> take 2 t = ''0X'' then radix_literal 16 (drop 2 t)
         else if take 2 t = ''0o'' \<or> take 2 t = ''0O'' then radix_literal 8 (drop 2 t)
         else if take 2 t = ''0b'' \<or> take 2 t = ''0B'' then radix_literal 2 (drop 2 t)
         else (case str_decimal t of
                 None \<Rightarrow> NaN
               | Some (v, rest) \<Rightarrow> if rest = [] then v else NaN))"

fun ToNumber :: "jsval \<Rightarrow> jsnum" where
  "ToNumber Undefined = NaN"
| "ToNumber (Bool b) = (if b then Fin 1 else Fin 0)"
| "ToNumber (Num n) = n"
| "ToNumber (Str s) = StringToNumber s"

subsection \<open>Comparison\<close>

text \<open>Strings compare by code units, so every capital letter is below every small one.\<close>

fun str_lt :: "string \<Rightarrow> string \<Rightarrow> bool" where
  "str_lt [] [] = False"
| "str_lt [] (y # ys) = True"
| "str_lt (x # xs) [] = False"
| "str_lt (x # xs) (y # ys) =
     (if x = y then str_lt xs ys else (of_char x :: nat) < of_char y)"

text \<open>\<open>a < b\<close>: two strings compare as strings, anything else as numbers.\<close>

fun js_lt :: "jsval \<Rightarrow> jsval \<Rightarrow> bool" where
  "js_lt (Str s) (Str t) = str_lt s t"
| "js_lt a b = num_lt (ToNumber a) (ToNumber b)"

definition js_gt :: "jsval \<Rightarrow> jsval \<Rightarrow> bool" where
  "js_gt a b = js_lt b a"

section \<open>Stock classifier and field normalizer (server.js)\<close>

datatype stockLevel = OUT_OF_STOCK | LOW_STOCK | MEDIUM_STOCK | HIGH_STOCK

text \<open>
  The arguments of \<open>getStockLevel\<close> are whole numbers, and \<open>minRequired * 1.5\<close> is a
  product of doubles: the double nearest to the exact product, ties going to the even
  significand. The exact product of the integer \<open>m\<close> and 1.5 is \<open>3 * m / 2\<close>, and
  halving is exact, so the product is \<open>3 * m\<close> rounded to 53 significant bits, halved:
  exact as long as \<open>3 * m\<close> fits in 53 bits, and infinite from \<open>2^1024\<close> on.
\<close>

fun bit_length :: "nat \<Rightarrow> nat" where
  "bit_length n = (if n = 0 then 0 else Suc (bit_length (n div 2)))"

declare bit_length.simps [simp del]

definition round53 :: "int \<Rightarrow> int" where
  "round53 n =
     (let k = bit_length (nat \<bar>n\<bar>) - 53;
          q = n div 2 ^ k;
          r = n mod 2 ^ k
      in if k = 0 then n
         else if 2 * r < 2 ^ k then q * 2 ^ k
         else if 2 ^ k < 2 * r then (q + 1) * 2 ^ k
         else if even q then q * 2 ^ k
         else (q + 1) * 2 ^ k)"

definition times_1_5 :: "int \<Rightarrow> jsnum" where
  "times_1_5 m =
     (if 2 ^ 1024 \<le> real_of_int (round53 (3 * m)) / 2 then PInf
      else if real_of_int (round53 (3 * m)) / 2 \<le> - (2 ^ 1024) then NInf
      else Fin (real_of_int (round53 (3 * m)) / 2))"

definition getStockLevel :: "int \<Rightarrow> int \<Rightarrow> stockLevel" where
  "getStockLevel currentStock minRequired =
     (if currentStock = 0 then OUT_OF_STOCK
      else if currentStock \<le> minRequired then LOW_STOCK
      else if num_le (Fin (real_of_int currentStock)) (times_1_5 minRequired) then MEDIUM_STOCK
      else HIGH_STOCK)"

text \<open>
  A raw row maps column names to cells. The four quantities are \<open>parseInt(..) || 0\<close>,
  hence integers; the cost is \<open>parseFloat(..) || 0\<close>; the text fields are the cell
  itself when it is truthy, whatever its type.
\<close>

type_synonym rawrow = "string \<rightharpoonup> jsval"

definition cell :: "rawrow \<Rightarrow> string \<Rightarrow> jsval" where
  "cell item k = (case item k of None \<Rightarrow> Undefined | Some v \<Rightarrow> v)"

record part =
  part_id :: jsval
  equipmentCategory :: jsval
  partName :: jsval
  partCode :: jsval
  currentStock :: int
  minRequired :: int
  maxThreshold :: int
  inProcess :: int
  unitCost :: jsnum
  supplier :: jsval
  lastUpdated :: jsval
  status :: jsval
  stockLevel :: stockLevel
  totalValue :: jsnum

text \<open>
  The arrow function that \<open>processSparePartsData\<close> maps over the rows; \<open>day\<close> and \<open>tok\<close>
  are the clock's date and the random token on offer for this row.
\<close>

definition normalize_row :: "host \<Rightarrow> string \<Rightarrow> string \<Rightarrow> rawrow \<Rightarrow> part" where
  "normalize_row h day tok item =
     \<lparr> part_id = js_or (cell item ''Part_Code'')
                   (Str (ToString h (cell item ''Equipment_Category'') @ ''-'' @ tok)),
       equipmentCategory = js_or (cell item ''Equipment_Category'') (Str ''UNKNOWN''),
       partName = js_or (cell item ''Part_Name'') (Str ''Unknown Part''),
       partCode = js_or (cell item ''Part_Code'') (Str ''N/A''),
       currentStock = or0 (parseInt h (cell item ''Current_Stock'')),
       minRequired = or0 (parseInt h (cell item ''Minimum_Required'')),
       maxThreshold = or0 (parseInt h (cell item ''Maximum_Threshold'')),
       inProcess = or0 (parseInt h (cell item ''In_Process'')),
       unitCost = num_or (parseFloat h (cell item ''Unit_Cost'')) (Fin 0),
       supplier = js_or (cell item ''Supplier'') (Str ''Unknown''),
       lastUpdated = js_or (cell item ''Last_Updated'') (Str day),
       status = js_or (cell item ''Status'') (Str ''Active''),
       stockLevel = getStockLevel (or0 (parseInt h (cell item ''Current_Stock'')))
                      (or0 (parseInt h (cell item ''Minimum_Required''))),
       totalValue = num_times (Fin (of_int (or0 (parseInt h (cell item ''Current_Stock'')))))
                      (num_or (parseFloat h (cell item ''Unit_Cost'')) (Fin 0)) \<rparr>"

definition processSparePartsData :: "host \<Rightarrow> rawrow list \<Rightarrow> part list" where
  "processSparePartsData h rawData =
     map (\<lambda>(i, item). normalize_row h (today h i) (randomToken h i) item)
       (zip [0 ..< length rawData] rawData)"


section \<open>Dataset loader (server.js, readExcelData)\<close>

text \<open>
  What the loader finds on disk: no file, a file whose read throws, or a workbook with its
  sheet names in order and its sheets, each sheet given by the rows that
  \<open>xlsx.utils.sheet_to_json\<close> makes of it. \<open>sheet_to_json\<close> of a sheet that is not
  there is the empty list.
\<close>

record workbook =
  SheetNames :: "string list"
  Sheets :: "string \<rightharpoonup> rawrow list"

datatype source = NotFound | ReadThrows | Book workbook

definition sheet_to_json :: "rawrow list option \<Rightarrow> rawrow list" where
  "sheet_to_json worksheet = (case worksheet of None \<Rightarrow> [] | Some rows \<Rightarrow> rows)"

definition readExcelData :: "host \<Rightarrow> source \<Rightarrow> part list" where
  "readExcelData h src =
     (case src of
        NotFound \<Rightarrow> []
      | ReadThrows \<Rightarrow> []
      | Book wb \<Rightarrow>
          if Sheets wb ''Spare_Parts_Inventory'' = None then
            (case SheetNames wb of
               [] \<Rightarrow> []
             | firstSheetName # _ \<Rightarrow>
                 if firstSheetName = [] then []
                 else processSparePartsData h (sheet_to_json (Sheets wb firstSheetName)))
          else processSparePartsData h (sheet_to_json (Sheets wb ''Spare_Parts_Inventory'')))"

section \<open>The in-memory store\<close>

record state =
  sparePartsData :: "part list"
  lastSyncTime :: string

section \<open>Query engine (server.js, GET /api/spare-parts)\<close>

text \<open>
  The query parameters of a request, each absent or a string (what a plain \<open>?k=v\<close>
  gives). A parameter is used when it is truthy: present and not empty.
\<close>

record criteria =
  q_equipment :: "string option"
  q_stockLevel :: "string option"
  q_status :: "string option"
  q_search :: "string option"
  q_sortBy :: "string option"
  q_sortOrder :: "string option"
  q_page :: "string option"
  q_limit :: "string option"

record page_result =
  r_data :: "part list"
  r_total :: nat
  r_page :: int
  r_limit :: int
  r_totalPages :: int
  r_lastSync :: string

datatype error = TypeError

definition given :: "string option \<Rightarrow> bool" where
  "given p = (case p of None \<Rightarrow> False | Some s \<Rightarrow> s \<noteq> [])"

definition param_text :: "string option \<Rightarrow> string" where
  "param_text p = (case p of None \<Rightarrow> ''undefined'' | Some s \<Rightarrow> s)"

definition level_name :: "stockLevel \<Rightarrow> string" where
  "level_name l =
     (case l of
        OUT_OF_STOCK \<Rightarrow> ''OUT_OF_STOCK''
      | LOW_STOCK \<Rightarrow> ''LOW_STOCK''
      | MEDIUM_STOCK \<Rightarrow> ''MEDIUM_STOCK''
      | HIGH_STOCK \<Rightarrow> ''HIGH_STOCK'')"

definition lower_char :: "char \<Rightarrow> char" where
  "lower_char c =
     (case map_of (zip ''ABCDEFGHIJKLMNOPQRSTUVWXYZ'' ''abcdefghijklmnopqrstuvwxyz'') c of
        None \<Rightarrow> c
      | Some d \<Rightarrow> d)"

definition toLowerCase :: "string \<Rightarrow> string" where
  "toLowerCase s = map lower_char s"

text \<open>\<open>s.includes(t)\<close>: \<open>t\<close> occurs in \<open>s\<close> as a contiguous run.\<close>

fun str_includes :: "string \<Rightarrow> string \<Rightarrow> bool" where
  "str_includes [] t = (t = [])"
| "str_includes (c # cs) t = (take (length t) (c # cs) = t \<or> str_includes cs t)"

text \<open>
  \<open>v.toLowerCase()\<close>: only a string has the method; on a number or a boolean the call
  throws a TypeError, which the handler's \<open>catch\<close> turns into the 500 answer.
\<close>

definition lowered :: "jsval \<Rightarrow> error + string" where
  "lowered v = (case v of Str s \<Rightarrow> Inr (toLowerCase s) | _ \<Rightarrow> Inl TypeError)"

definition search_match :: "string \<Rightarrow> part \<Rightarrow> error + bool" where
  "search_match searchTerm item =
     (case lowered (partName item) of
        Inl e \<Rightarrow> Inl e
      | Inr n \<Rightarrow>
          if str_includes n searchTerm then Inr True
          else (case lowered (partCode item) of
                  Inl e \<Rightarrow> Inl e
                | Inr c \<Rightarrow> Inr (str_includes c searchTerm)))"

fun filter_err :: "('a \<Rightarrow> error + bool) \<Rightarrow> 'a list \<Rightarrow> error + 'a list" where
  "filter_err p [] = Inr []"
| "filter_err p (x # xs) =
     (case p x of
        Inl e \<Rightarrow> Inl e
      | Inr b \<Rightarrow>
          (case filter_err p xs of
             Inl e \<Rightarrow> Inl e
           | Inr ys \<Rightarrow> Inr (if b then x # ys else ys)))"

text \<open>\<open>a[sortField]\<close>: the record's own field of that name, \<open>undefined\<close> for any other name.\<close>

definition get_field :: "part \<Rightarrow> string \<Rightarrow> jsval" where
  "get_field a k =
     (if k = ''id'' then part_id a
      else if k = ''equipmentCategory'' then equipmentCategory a
      else if k = ''partName'' then partName a
      else if k = ''partCode'' then partCode a
      else if k = ''currentStock'' then Num (Fin (of_int (currentStock a)))
      else if k = ''minRequired'' then Num (Fin (of_int (minRequired a)))
      else if k = ''maxThreshold'' then Num (Fin (of_int (maxThreshold a)))
      else if k = ''inProcess'' then Num (Fin (of_int (inProcess a)))
      else if k = ''unitCost'' then Num (unitCost a)
      else if k = ''supplier'' then supplier a
      else if k = ''lastUpdated'' then lastUpdated a
      else if k = ''status'' then status a
      else if k = ''stockLevel'' then Str (level_name (stockLevel a))
      else if k = ''totalValue'' then Num (totalValue a)
      else Undefined)"

definition field_names :: "string list" where
  "field_names =
     [''id'', ''equipmentCategory'', ''partName'', ''partCode'', ''currentStock'',
      ''minRequired'', ''maxThreshold'', ''inProcess'', ''unitCost'', ''supplier'',
      ''lastUpdated'', ''status'', ''stockLevel'', ''totalValue'']"

text \<open>
  \<open>Array.prototype.sort\<close> with a comparator is stable, and a comparator result that is
  \<open>NaN\<close> counts as \<open>0\<close>: an element moves behind another only when the comparator is
  positive on the pair. The model is the stable insertion sort; every stable sort gives
  the same list when the comparator is a consistent ordering.
\<close>

definition positive :: "jsnum \<Rightarrow> bool" where
  "positive n = (case n of Fin x \<Rightarrow> 0 < x | PInf \<Rightarrow> True | _ \<Rightarrow> False)"

fun insert_sorted :: "('a \<Rightarrow> 'a \<Rightarrow> jsnum) \<Rightarrow> 'a \<Rightarrow> 'a list \<Rightarrow> 'a list" where
  "insert_sorted c x [] = [x]"
| "insert_sorted c x (y # ys) =
     (if positive (c x y) then y # insert_sorted c x ys else x # y # ys)"

definition array_sort :: "('a \<Rightarrow> 'a \<Rightarrow> jsnum) \<Rightarrow> 'a list \<Rightarrow> 'a list" where
  "array_sort c xs = foldr (insert_sorted c) xs []"

definition compare_field :: "string \<Rightarrow> int \<Rightarrow> part \<Rightarrow> part \<Rightarrow> jsnum" where
  "compare_field sortField sortOrder a b =
     (if js_lt (get_field a sortField) (get_field b sortField) then Fin (of_int (- 1 * sortOrder))
      else if js_gt (get_field a sortField) (get_field b sortField) then Fin (of_int (1 * sortOrder))
      else Fin 0)"

text \<open>\<open>xs.slice(start, end)\<close>: a negative index counts from the end of the list.\<close>

definition slice_index :: "nat \<Rightarrow> int \<Rightarrow> nat" where
  "slice_index len i = (if i < 0 then nat (max (int len + i) 0) else nat (min i (int len)))"

definition slice :: "'a list \<Rightarrow> int \<Rightarrow> int \<Rightarrow> 'a list" where
  "slice xs startIndex endIndex =
     take (slice_index (length xs) endIndex - slice_index (length xs) startIndex)
       (drop (slice_index (length xs) startIndex) xs)"

text \<open>
  The handler in its steps: the four filters, the sort, then (in \<open>get_spare_parts\<close>) the
  pagination. \<open>filteredData\<close> is the handler's variable as it stands before pagination.
\<close>

definition filter_steps :: "criteria \<Rightarrow> part list \<Rightarrow> error + part list" where
  "filter_steps q d =
     (let d1 = (if given (q_equipment q)
                then filter (\<lambda>item. equipmentCategory item = Str (param_text (q_equipment q))) d
                else d);
          d2 = (if given (q_stockLevel q)
                then filter (\<lambda>item. level_name (stockLevel item) = param_text (q_stockLevel q)) d1
                else d1);
          d3 = (if given (q_status q)
                then filter (\<lambda>item. status item = Str (param_text (q_status q))) d2
                else d2)
      in if given (q_search q)
         then filter_err (search_match (toLowerCase (param_text (q_search q)))) d3
         else Inr d3)"

definition sort_step :: "criteria \<Rightarrow> part list \<Rightarrow> part list" where
  "sort_step q d =
     (if given (q_sortBy q)
      then array_sort
             (compare_field (param_text (q_sortBy q))
                (if q_sortOrder q = Some ''desc'' then - 1 else 1)) d
      else d)"

definition filteredData :: "criteria \<Rightarrow> part list \<Rightarrow> error + part list" where
  "filteredData q d =
     (case filter_steps q d of Inl e \<Rightarrow> Inl e | Inr d4 \<Rightarrow> Inr (sort_step q d4))"

definition get_spare_parts :: "criteria \<Rightarrow> state \<Rightarrow> error + page_result" where
  "get_spare_parts q st =
     (case filteredData q (sparePartsData st) of
        Inl e \<Rightarrow> Inl e
      | Inr fd \<Rightarrow>
          (let page = or1 (parseInt_str (param_text (q_page q)));
               limit = or50 (parseInt_str (param_text (q_limit q)));
               startIndex = (page - 1) * limit;
               endIndex = page * limit
           in Inr \<lparr> r_data = slice fd startIndex endIndex,
                    r_total = length fd,
                    r_page = page,
                    r_limit = limit,
                    r_totalPages = \<lceil>real (length fd) / real_of_int limit\<rceil>,
                    r_lastSync = lastSyncTime st \<rparr>))"

section \<open>Client-side filter and sort (apiService.jsx, filterSpareParts)\<close>

text \<open>
  The client has its own copy of the filter and the sort. Its comparator lowers both keys
  when the left one is a string; lowering a right key that is not a string throws.
\<close>

record filters =
  f_equipment :: "string option"
  f_stockLevel :: "string option"
  f_status :: "string option"
  f_search :: "string option"
  f_sortBy :: "string option"
  f_sortOrder :: "string option"

definition lowered_any :: "jsval \<Rightarrow> error + jsval" where
  "lowered_any v =
     (case v of Str s \<Rightarrow> Inr (Str (toLowerCase s)) | _ \<Rightarrow> Inl TypeError)"

definition compare_lowered :: "string \<Rightarrow> int \<Rightarrow> part \<Rightarrow> part \<Rightarrow> error + jsnum" where
  "compare_lowered sortField sortOrder a b =
     (case (case get_field a sortField of
              Str s \<Rightarrow>
                (case lowered_any (get_field b sortField) of
                   Inl e \<Rightarrow> Inl e
                 | Inr bVal \<Rightarrow> Inr (Str (toLowerCase s), bVal))
            | aVal \<Rightarrow> Inr (aVal, get_field b sortField)) of
        Inl e \<Rightarrow> Inl e
      | Inr (aVal, bVal) \<Rightarrow>
          Inr (if js_lt aVal bVal then Fin (of_int (- 1 * sortOrder))
               else if js_gt aVal bVal then Fin (of_int (1 * sortOrder))
               else Fin 0))"

fun insert_sorted_err ::
  "('a \<Rightarrow> 'a \<Rightarrow> error + jsnum) \<Rightarrow> 'a \<Rightarrow> 'a list \<Rightarrow> error + 'a list" where
  "insert_sorted_err c x [] = Inr [x]"
| "insert_sorted_err c x (y # ys) =
     (case c x y of
        Inl e \<Rightarrow> Inl e
      | Inr n \<Rightarrow>
          if positive n then
            (case insert_sorted_err c x ys of Inl e \<Rightarrow> Inl e | Inr zs \<Rightarrow> Inr (y # zs))
          else Inr (x # y # ys))"

fun array_sort_err :: "('a \<Rightarrow> 'a \<Rightarrow> error + jsnum) \<Rightarrow> 'a list \<Rightarrow> error + 'a list" where
  "array_sort_err c [] = Inr []"
| "array_sort_err c (x # xs) =
     (case array_sort_err c xs of Inl e \<Rightarrow> Inl e | Inr ys \<Rightarrow> insert_sorted_err c x ys)"

definition wanted :: "string option \<Rightarrow> bool" where
  "wanted p = (given p \<and> p \<noteq> Some ''ALL'')"

definition search_match3 :: "string \<Rightarrow> part \<Rightarrow> error + bool" where
  "search_match3 searchTerm p =
     (case search_match searchTerm p of
        Inl e \<Rightarrow> Inl e
      | Inr b \<Rightarrow>
          if b then Inr True
          else (case lowered (supplier p) of
                  Inl e \<Rightarrow> Inl e
                | Inr s \<Rightarrow> Inr (str_includes s searchTerm)))"

definition client_filter_steps :: "part list \<Rightarrow> filters \<Rightarrow> error + part list" where
  "client_filter_steps spareParts fs =
     (let d1 = (if wanted (f_equipment fs)
                then filter (\<lambda>p. equipmentCategory p = Str (param_text (f_equipment fs))) spareParts
                else spareParts);
          d2 = (if wanted (f_stockLevel fs)
                then filter (\<lambda>p. level_name (stockLevel p) = param_text (f_stockLevel fs)) d1
                else d1);
          d3 = (if wanted (f_status fs)
                then filter (\<lambda>p. status p = Str (param_text (f_status fs))) d2
                else d2)
      in if given (f_search fs)
         then filter_err (search_match3 (toLowerCase (param_text (f_search fs)))) d3
         else Inr d3)"

definition client_sort_step :: "filters \<Rightarrow> part list \<Rightarrow> error + part list" where
  "client_sort_step fs d =
     (if given (f_sortBy fs)
      then array_sort_err
             (compare_lowered (param_text (f_sortBy fs))
                (if f_sortOrder fs = Some ''desc'' then - 1 else 1)) d
      else Inr d)"

definition filterSpareParts :: "part list \<Rightarrow> filters \<Rightarrow> error + part list" where
  "filterSpareParts spareParts fs =
     (case client_filter_steps spareParts fs of
        Inl e \<Rightarrow> Inl e
      | Inr d4 \<Rightarrow> client_sort_step fs d4)"

section \<open>Aggregator (server.js, GET /api/dashboard/stats)\<close>

record breakdown =
  b_totalParts :: nat
  b_totalValue :: jsnum
  b_criticalParts :: nat

record stats =
  s_totalParts :: nat
  s_totalValue :: jsnum
  s_outOfStock :: nat
  s_lowStock :: nat
  s_inProcess :: int
  s_equipmentBreakdown :: "string \<rightharpoonup> breakdown"
  s_stockLevelBreakdown :: "stockLevel \<Rightarrow> nat"
  s_recentActivity :: "part list"
  s_lastSync :: string

text \<open>
  \<open>new Date(v)\<close> as its time value: a string goes through \<open>Date.parse\<close>, anything else
  through \<open>ToNumber\<close> and \<open>TimeClip\<close>. \<open>None\<close> is the invalid date, whose number is \<open>NaN\<close>.
\<close>

definition TimeClip :: "jsnum \<Rightarrow> real option" where
  "TimeClip n =
     (case n of
        Fin x \<Rightarrow>
          if \<bar>x\<bar> \<le> 8640000000000000
          then Some (if 0 \<le> x then of_int \<lfloor>x\<rfloor> else of_int \<lceil>x\<rceil>)
          else None
      | _ \<Rightarrow> None)"

definition new_Date :: "host \<Rightarrow> jsval \<Rightarrow> real option" where
  "new_Date h v = (case v of Str s \<Rightarrow> dateParse h s | _ \<Rightarrow> TimeClip (ToNumber v))"

definition date_number :: "real option \<Rightarrow> jsnum" where
  "date_number d = (case d of None \<Rightarrow> NaN | Some t \<Rightarrow> Fin t)"

definition newest_first :: "host \<Rightarrow> part \<Rightarrow> part \<Rightarrow> jsnum" where
  "newest_first h a b =
     num_minus (date_number (new_Date h (lastUpdated b)))
       (date_number (new_Date h (lastUpdated a)))"

definition critical :: "part \<Rightarrow> bool" where
  "critical item = (stockLevel item = OUT_OF_STOCK \<or> stockLevel item = LOW_STOCK)"

definition add_equipment ::
  "host \<Rightarrow> (string \<rightharpoonup> breakdown) \<Rightarrow> part \<Rightarrow> (string \<rightharpoonup> breakdown)" where
  "add_equipment h eb item =
     (let k = ToString h (equipmentCategory item);
          b = (case eb k of
                 None \<Rightarrow> \<lparr> b_totalParts = 0, b_totalValue = Fin 0, b_criticalParts = 0 \<rparr>
               | Some b \<Rightarrow> b)
      in eb(k \<mapsto> \<lparr> b_totalParts = b_totalParts b + 1,
                   b_totalValue = num_plus (b_totalValue b) (totalValue item),
                   b_criticalParts = (if critical item then b_criticalParts b + 1
                                      else b_criticalParts b) \<rparr>))"

definition add_level :: "(stockLevel \<Rightarrow> nat) \<Rightarrow> part \<Rightarrow> (stockLevel \<Rightarrow> nat)" where
  "add_level sb item = sb(stockLevel item := sb (stockLevel item) + 1)"

text \<open>
  The handler builds the object literal first, and \<open>sparePartsData.sort(..)\<close> in it sorts
  the store's own array; the \<open>forEach\<close> after it walks the array as the sort left it. The
  handler returns the statistics and leaves the store in its new state.
\<close>

definition dashboard_stats :: "host \<Rightarrow> state \<Rightarrow> stats \<times> state" where
  "dashboard_stats h st =
     (let d = sparePartsData st;
          sorted = array_sort (newest_first h) d
      in (\<lparr> s_totalParts = length d,
            s_totalValue = foldl (\<lambda>sum item. num_plus sum (totalValue item)) (Fin 0) d,
            s_outOfStock = length (filter (\<lambda>item. stockLevel item = OUT_OF_STOCK) d),
            s_lowStock = length (filter (\<lambda>item. stockLevel item = LOW_STOCK) d),
            s_inProcess = foldl (\<lambda>sum item. sum + inProcess item) 0 d,
            s_equipmentBreakdown = foldl (add_equipment h) Map.empty sorted,
            s_stockLevelBreakdown = foldl add_level (\<lambda>_. 0) sorted,
            s_recentActivity = slice sorted 0 10,
            s_lastSync = lastSyncTime st \<rparr>,
          st\<lparr> sparePartsData := sorted \<rparr>))"


section \<open>Re-normalizing a record\<close>

text \<open>
  Two ways of handing a canonical record back to the normalizer as a raw row. The first is
  the record as it is, under its own field names (\<open>id\<close>, \<open>partName\<close>, ...). The second
  puts each field under the column name the normalizer reads it from; the quantities and
  the cost go back as the numbers they are.
\<close>

definition own_fields :: "part \<Rightarrow> rawrow" where
  "own_fields p = (\<lambda>k. if k \<in> set field_names then Some (get_field p k) else None)"

definition as_raw_row :: "part \<Rightarrow> rawrow" where
  "as_raw_row p =
     [''Part_Code'' \<mapsto> partCode p,
      ''Equipment_Category'' \<mapsto> equipmentCategory p,
      ''Part_Name'' \<mapsto> partName p,
      ''Current_Stock'' \<mapsto> Num (Fin (of_int (currentStock p))),
      ''Minimum_Required'' \<mapsto> Num (Fin (of_int (minRequired p))),
      ''Maximum_Threshold'' \<mapsto> Num (Fin (of_int (maxThreshold p))),
      ''In_Process'' \<mapsto> Num (Fin (of_int (inProcess p))),
      ''Unit_Cost'' \<mapsto> Num (unitCost p),
      ''Supplier'' \<mapsto> supplier p,
      ''Last_Updated'' \<mapsto> lastUpdated p,
      ''Status'' \<mapsto> status p]"

text \<open>
  A number prints back when it is an integer below \<open>10^21\<close> in magnitude (printed here
  digit by digit), an infinity or \<open>NaN\<close>, or when \<open>parseFloat\<close> reads the host's print of
  it as the same number, which is what the shortest round-trip digits of a double are for.
\<close>

definition prints_back :: "host \<Rightarrow> jsnum \<Rightarrow> bool" where
  "prints_back h n =
     (case n of
        Fin x \<Rightarrow>
          (of_int \<lfloor>x\<rfloor> = x \<and> \<bar>x\<bar> < 10 ^ 21) \<or> parseFloat_str (numToString h x) = Fin x
      | _ \<Rightarrow> True)"

text \<open>The text of a cell begins, after white space, with a minus sign.\<close>

definition minus_cell :: "host \<Rightarrow> jsval \<Rightarrow> bool" where
  "minus_cell h v = is_minus (skip_ws (ToString h v))"

section \<open>A sample host and sample data\<close>

text \<open>
  A host for the worked examples: it prints \<open>10^21\<close> and \<open>2.5\<close> as JavaScript does,
  knows the time values of two calendar dates (midnight UTC, in milliseconds), shows the
  same date and hands out the same token for every row.
\<close>

definition sample_host :: host where
  "sample_host =
     \<lparr> numToString = (\<lambda>x. if x = 10 ^ 21 then ''1e+21'' else if x = 2.5 then ''2.5'' else ''NaN''),
       dateParse = (\<lambda>s. if s = ''2024-01-01'' then Some 1704067200000
                         else if s = ''2024-06-01'' then Some 1717200000000
                         else None),
       today = (\<lambda>_. ''2024-06-01''),
       randomToken = (\<lambda>_. ''k3x9q2m1z'') \<rparr>"

definition sample_row :: "rawrow \<Rightarrow> part" where
  "sample_row item = normalize_row sample_host ''2024-06-01'' ''k3x9q2m1z'' item"

definition sample_store :: "part list \<Rightarrow> state" where
  "sample_store d = \<lparr> sparePartsData = d, lastSyncTime = ''2024-06-01T00:00:00.000Z'' \<rparr>"

definition no_criteria :: criteria where
  "no_criteria =
     \<lparr> q_equipment = None, q_stockLevel = None, q_status = None, q_search = None,
       q_sortBy = None, q_sortOrder = None, q_page = None, q_limit = None \<rparr>"

definition no_filters :: filters where
  "no_filters =
     \<lparr> f_equipment = None, f_stockLevel = None, f_status = None, f_search = None,
       f_sortBy = None, f_sortOrder = None \<rparr>"


text \<open>Records told apart by their part code, and the first \<open>n\<close> of them.\<close>

definition numbered :: "nat \<Rightarrow> part" where
  "numbered i = sample_row [''Part_Code'' \<mapsto> Str (show_nat i)]"

definition sample_parts :: "nat \<Rightarrow> part list" where
  "sample_parts n = map numbered [1 ..< Suc n]"

text \<open>Records that differ in their name, and records that differ in their date.\<close>

definition named :: "string \<Rightarrow> part" where
  "named n = sample_row [''Part_Name'' \<mapsto> Str n]"

definition dated :: "string \<Rightarrow> part" where
  "dated d = sample_row [''Last_Updated'' \<mapsto> Str d]"

section \<open>White space and double rounding\<close>

lemma ws_width_plain: "c \<notin> set ws_heads \<Longrightarrow> ws_width (c # cs) = 0"
  by (simp add: ws_width_def white_space_def ws_heads_def starts_with_def)

lemma skip_ws_plain: "c \<notin> set ws_heads \<Longrightarrow> skip_ws (c # cs) = c # cs"
  by (simp add: skip_ws.simps(2) ws_width_plain)

lemma skip_ws_space: "skip_ws (CHR 0x20 # cs) = skip_ws cs"
  by (simp add: skip_ws.simps(2) ws_width_def white_space_def starts_with_def)

lemma skip_ws_nbsp: "skip_ws (CHR 0xC2 # CHR 0xA0 # cs) = skip_ws cs"
  by (simp add: skip_ws.simps(2) ws_width_def white_space_def starts_with_def)

lemma parseInt_str_nbsp: "parseInt_str (CHR 0xC2 # CHR 0xA0 # ''-5'') = Some (- 5)"
  by (simp add: parseInt_str_def skip_ws_nbsp skip_ws_plain ws_heads_def strip_sign_def
      is_sign_def is_minus_def is_digit_in_def digit_val_def digits_value_def digit_num_def)

lemma bit_length_le: "n < 2 ^ k \<Longrightarrow> bit_length n \<le> k"
proof (induction k arbitrary: n)
  case 0
  then show ?case by (subst bit_length.simps) simp
next
  case (Suc k)
  then have "n div 2 < 2 ^ k"
    by simp
  then have "bit_length (n div 2) \<le> k"
    by (rule Suc.IH)
  then show ?case
    by (subst bit_length.simps) simp
qed

lemma round53_exact: "\<bar>n\<bar> < 2 ^ 53 \<Longrightarrow> round53 n = n"
proof -
  assume "\<bar>n\<bar> < 2 ^ 53"
  then have "nat \<bar>n\<bar> < 2 ^ 53"
    by (simp add: nat_less_iff)
  then have "bit_length (nat \<bar>n\<bar>) \<le> 53"
    by (rule bit_length_le)
  then show ?thesis
    by (simp add: round53_def)
qed

lemma times_1_5_exact:
  assumes "3 * \<bar>m\<bar> < 2 ^ 53"
  shows "times_1_5 m = Fin (1.5 * real_of_int m)"
proof -
  have "\<bar>3 * m\<bar> < 2 ^ 53"
    using assms by (simp add: abs_mult)
  then have r: "round53 (3 * m) = 3 * m"
    by (rule round53_exact)
  have "\<bar>real_of_int (3 * m)\<bar> < 2 ^ 53"
    using \<open>\<bar>3 * m\<bar> < 2 ^ 53\<close> by (metis of_int_abs of_int_less_iff of_int_numeral of_int_power)
  then have "\<bar>real_of_int (3 * m) / 2\<bar> < 2 ^ 1024"
    by (simp add: abs_if split: if_splits)
  then show ?thesis
    by (simp add: times_1_5_def r abs_if split: if_splits)
qed

section \<open>The stock classifier\<close>

text \<open>
  Claim C2, as amended. \<open>getStockLevel\<close> answers OUT_OF_STOCK exactly when the current
  stock is 0, whatever the minimum; otherwise LOW_STOCK exactly when the stock is at most
  the minimum. The third test compares the stock with the double product
  \<open>minRequired * 1.5\<close>, which is the exact product as long as three times the minimum is
  below \<open>2^53\<close> in magnitude: then the answer is MEDIUM_STOCK exactly when the stock is at
  most 1.5 times the minimum, the boundary included (minimum 10, stock 15), and HIGH_STOCK
  otherwise (minimum 10, stock 16).
\<close>

theorem getStockLevel_classifies:
  "(getStockLevel cs mr = OUT_OF_STOCK \<longleftrightarrow> cs = 0) \<and>
   (getStockLevel cs mr = LOW_STOCK \<longleftrightarrow> cs \<noteq> 0 \<and> cs \<le> mr) \<and>
   (3 * \<bar>mr\<bar> < 2 ^ 53 \<longrightarrow>
      (getStockLevel cs mr = MEDIUM_STOCK \<longleftrightarrow>
         cs \<noteq> 0 \<and> mr < cs \<and> real_of_int cs \<le> 1.5 * real_of_int mr) \<and>
      (getStockLevel cs mr = HIGH_STOCK \<longleftrightarrow>
         cs \<noteq> 0 \<and> mr < cs \<and> 1.5 * real_of_int mr < real_of_int cs)) \<and>
   getStockLevel 0 mr = OUT_OF_STOCK \<and>
   getStockLevel 15 10 = MEDIUM_STOCK \<and>
   getStockLevel 16 10 = HIGH_STOCK"
proof (intro conjI impI)
  show "getStockLevel cs mr = OUT_OF_STOCK \<longleftrightarrow> cs = 0"
    and "getStockLevel cs mr = LOW_STOCK \<longleftrightarrow> cs \<noteq> 0 \<and> cs \<le> mr"
    and "getStockLevel 0 mr = OUT_OF_STOCK"
    by (simp_all add: getStockLevel_def)
  have ten: "times_1_5 10 = Fin 15"
    using times_1_5_exact [of 10] by simp
  show "getStockLevel 15 10 = MEDIUM_STOCK" and "getStockLevel 16 10 = HIGH_STOCK"
    by (simp_all add: getStockLevel_def ten num_le_def)
next
  assume "3 * \<bar>mr\<bar> < 2 ^ 53"
  then have exact: "times_1_5 mr = Fin (1.5 * real_of_int mr)"
    by (rule times_1_5_exact)
  show "getStockLevel cs mr = MEDIUM_STOCK \<longleftrightarrow>
         cs \<noteq> 0 \<and> mr < cs \<and> real_of_int cs \<le> 1.5 * real_of_int mr"
    by (auto simp: getStockLevel_def exact num_le_def)
  show "getStockLevel cs mr = HIGH_STOCK \<longleftrightarrow>
         cs \<noteq> 0 \<and> mr < cs \<and> 1.5 * real_of_int mr < real_of_int cs"
    by (auto simp: getStockLevel_def exact num_le_def)
qed

theorem getStockLevel_classifies_witness:
  "(3::int) * \<bar>10\<bar> < 2 ^ 53 \<and>
   (getStockLevel 15 10 = MEDIUM_STOCK \<longleftrightarrow>
      (15::int) \<noteq> 0 \<and> (10::int) < 15 \<and> real_of_int 15 \<le> 1.5 * real_of_int 10) \<and>
   (getStockLevel 15 10 = HIGH_STOCK \<longleftrightarrow>
      (15::int) \<noteq> 0 \<and> (10::int) < 15 \<and> 1.5 * real_of_int 10 < real_of_int 15) \<and>
   getStockLevel 15 10 = MEDIUM_STOCK"
  using getStockLevel_classifies [of 15 10] by simp

text \<open>
  The claim as first stated, for every minimum, fails where the product is rounded. With
  minimum 6004799503160661 the exact product is 9007199254740991.5; the double product is
  the tie rounded to even, \<open>2^53\<close>. A stock of \<open>2^53\<close> is above 1.5 times the minimum
  and is classified MEDIUM_STOCK, not HIGH_STOCK.
\<close>

lemma bit_length_54: "bit_length 18014398509481983 = 54"
  by (simp add: bit_length.simps)

lemma times_1_5_rounded: "times_1_5 6004799503160661 = Fin 9007199254740992"
  by (simp add: times_1_5_def round53_def bit_length_54)

theorem getStockLevel_rounding_counterexample:
  "getStockLevel 9007199254740992 6004799503160661 = MEDIUM_STOCK \<and>
   (9007199254740992::int) \<noteq> 0 \<and>
   (6004799503160661::int) < 9007199254740992 \<and>
   1.5 * real_of_int 6004799503160661 < real_of_int 9007199254740992"
  by (simp add: getStockLevel_def times_1_5_rounded num_le_def)

section \<open>The field normalizer\<close>

lemma cell_empty: "cell Map.empty k = Undefined"
  by (simp add: cell_def)

lemma parseInt_undefined: "parseInt h Undefined = None"
  by (simp add: parseInt_def parseInt_str_def skip_ws_plain ws_heads_def strip_sign_def is_sign_def
      is_digit_in_def digit_val_def)

lemma parseFloat_undefined: "parseFloat h Undefined = NaN"
  by (simp add: parseFloat_def parseFloat_str_def str_decimal_def unsigned_decimal_def
      skip_ws_plain ws_heads_def strip_sign_def is_sign_def is_dec_def is_digit_in_def digit_val_def)

text \<open>
  Claim C6. A row with no column at all normalizes to the record of the defaults:
  category UNKNOWN, name Unknown Part, code N/A, supplier Unknown, status Active, the five
  numbers 0, stock level OUT_OF_STOCK and total value 0. The identifier is the synthetic
  one and the date is the clock's. \<open>normalize_row\<close> is a total function into records:
  no operation of the normalizer can throw on a cell, so it has no error result.
\<close>

theorem normalize_row_all_absent:
  "normalize_row h day tok Map.empty =
     \<lparr> part_id = Str (''undefined-'' @ tok),
       equipmentCategory = Str ''UNKNOWN'',
       partName = Str ''Unknown Part'',
       partCode = Str ''N/A'',
       currentStock = 0,
       minRequired = 0,
       maxThreshold = 0,
       inProcess = 0,
       unitCost = Fin 0,
       supplier = Str ''Unknown'',
       lastUpdated = Str day,
       status = Str ''Active'',
       stockLevel = OUT_OF_STOCK,
       totalValue = Fin 0 \<rparr>"
  by (simp add: normalize_row_def cell_empty parseInt_undefined parseFloat_undefined
      js_or_def or0_def num_or_def num_truthy_def getStockLevel_def)

section \<open>The dataset loader\<close>

lemma length_processSparePartsData: "length (processSparePartsData h rows) = length rows"
  by (simp add: processSparePartsData_def)

lemma nth_processSparePartsData:
  "i < length rows \<Longrightarrow>
   processSparePartsData h rows ! i = normalize_row h (today h i) (randomToken h i) (rows ! i)"
  by (simp add: processSparePartsData_def)

text \<open>
  Claim C9. The loader always returns a list: the empty one when the file is missing or
  its read throws, and when the workbook has neither the sheet Spare_Parts_Inventory nor
  any sheet name; the rows of the first sheet when the named sheet is missing; the rows of
  the named sheet otherwise. The rows it returns are the normalized rows of the sheet, one
  for one and in the sheet's order.
\<close>

theorem readExcelData_never_fails:
  "readExcelData h NotFound = [] \<and>
   readExcelData h ReadThrows = [] \<and>
   (Sheets wb0 ''Spare_Parts_Inventory'' = None \<and> SheetNames wb0 = [] \<longrightarrow>
      readExcelData h (Book wb0) = []) \<and>
   (Sheets wb1 ''Spare_Parts_Inventory'' = None \<and> SheetNames wb1 = name # names \<and>
    name \<noteq> [] \<and> Sheets wb1 name = Some rows1 \<longrightarrow>
      readExcelData h (Book wb1) = processSparePartsData h rows1) \<and>
   (Sheets wb2 ''Spare_Parts_Inventory'' = Some rows2 \<longrightarrow>
      readExcelData h (Book wb2) = processSparePartsData h rows2) \<and>
   length (processSparePartsData h rows) = length rows \<and>
   (\<forall>i < length rows.
      processSparePartsData h rows ! i
        = normalize_row h (today h i) (randomToken h i) (rows ! i))"
  by (simp add: readExcelData_def sheet_to_json_def length_processSparePartsData
      nth_processSparePartsData)

theorem readExcelData_never_fails_witness:
  "Sheets \<lparr> SheetNames = [], Sheets = Map.empty \<rparr> ''Spare_Parts_Inventory'' = None \<and>
   readExcelData sample_host (Book \<lparr> SheetNames = [], Sheets = Map.empty \<rparr>) = [] \<and>
   Sheets \<lparr> SheetNames = [''Sheet1''], Sheets = [''Sheet1'' \<mapsto> [Map.empty]] \<rparr>
     ''Spare_Parts_Inventory'' = None \<and>
   readExcelData sample_host
     (Book \<lparr> SheetNames = [''Sheet1''], Sheets = [''Sheet1'' \<mapsto> [Map.empty]] \<rparr>)
     = processSparePartsData sample_host [Map.empty] \<and>
   readExcelData sample_host
     (Book \<lparr> SheetNames = [''Spare_Parts_Inventory''],
             Sheets = [''Spare_Parts_Inventory'' \<mapsto>
                         [Map.empty, [''Part_Code'' \<mapsto> Str ''A1'']]] \<rparr>)
     = processSparePartsData sample_host [Map.empty, [''Part_Code'' \<mapsto> Str ''A1'']] \<and>
   (1::nat) < length [Map.empty, [''Part_Code'' \<mapsto> Str ''A1'']] \<and>
   processSparePartsData sample_host [Map.empty, [''Part_Code'' \<mapsto> Str ''A1'']] ! 1
     = normalize_row sample_host (today sample_host 1) (randomToken sample_host 1)
         [''Part_Code'' \<mapsto> Str ''A1'']"
  using readExcelData_never_fails
    [where h = sample_host
       and ?wb0.0 = "\<lparr> SheetNames = [], Sheets = Map.empty \<rparr>"
       and ?wb1.0 = "\<lparr> SheetNames = [''Sheet1''], Sheets = [''Sheet1'' \<mapsto> [Map.empty]] \<rparr>"
       and name = "''Sheet1''" and names = "[]" and ?rows1.0 = "[Map.empty]"
       and ?wb2.0 = "\<lparr> SheetNames = [''Spare_Parts_Inventory''],
             Sheets = [''Spare_Parts_Inventory'' \<mapsto>
                         [Map.empty, [''Part_Code'' \<mapsto> Str ''A1'']]] \<rparr>"
       and ?rows2.0 = "[Map.empty, [''Part_Code'' \<mapsto> Str ''A1'']]"
       and rows = "[Map.empty, [''Part_Code'' \<mapsto> Str ''A1'']]"]
  by simp

lemma parseInt_str_nonneg:
  "\<not> is_minus (skip_ws s) \<Longrightarrow> 0 \<le> or0 (parseInt_str s)"
  by (simp add: parseInt_str_def or0_def Let_def)

lemma pow10_pos: "0 < pow10 e"
  by (simp add: pow10_def)

lemma pow10_nonneg: "0 \<le> pow10 e"
  by (simp add: pow10_def)

lemma num_le_Fin0: "num_le (Fin 0) (Fin x) \<longleftrightarrow> 0 \<le> x"
  by (auto simp: num_le_def)

lemma num_le_PInf: "num_le (Fin 0) PInf"
  by (simp add: num_le_def)

lemma unsigned_decimal_nonneg:
  "unsigned_decimal s = Some (v, rest) \<Longrightarrow> num_le (Fin 0) v"
  by (auto simp: unsigned_decimal_def Let_def num_le_Fin0 num_le_PInf pow10_nonneg
      split: if_splits)

lemma parseFloat_str_nonneg:
  "\<not> is_minus (skip_ws s) \<Longrightarrow> num_le (Fin 0) (num_or (parseFloat_str s) (Fin 0))"
  by (auto simp: parseFloat_str_def str_decimal_def num_or_def num_truthy_def num_le_def
      split: option.splits dest: unsigned_decimal_nonneg)

text \<open>
  Claim C3, as amended. The normalizer does not clamp: a quantity is \<open>parseInt\<close> of its
  cell and the cost is \<open>parseFloat\<close> of its cell, zero when there is no number to read.
  So each of the five numbers is at least 0 whenever the text of its cell does not begin,
  after any JavaScript white space, with a minus sign; a cell such as \<open>-5\<close> gives the
  negative number it holds.
\<close>

theorem normalize_row_nonneg:
  "(\<not> minus_cell h (cell item ''Current_Stock'') \<longrightarrow>
      0 \<le> currentStock (normalize_row h day tok item)) \<and>
   (\<not> minus_cell h (cell item ''Minimum_Required'') \<longrightarrow>
      0 \<le> minRequired (normalize_row h day tok item)) \<and>
   (\<not> minus_cell h (cell item ''Maximum_Threshold'') \<longrightarrow>
      0 \<le> maxThreshold (normalize_row h day tok item)) \<and>
   (\<not> minus_cell h (cell item ''In_Process'') \<longrightarrow>
      0 \<le> inProcess (normalize_row h day tok item)) \<and>
   (\<not> minus_cell h (cell item ''Unit_Cost'') \<longrightarrow>
      num_le (Fin 0) (unitCost (normalize_row h day tok item)))"
  by (simp add: normalize_row_def minus_cell_def parseInt_def parseFloat_def
      parseInt_str_nonneg parseFloat_str_nonneg)


theorem normalize_row_nonneg_witness:
  "\<not> minus_cell sample_host (cell [''Current_Stock'' \<mapsto> Str ''7'', ''Unit_Cost'' \<mapsto> Str ''2.5''] ''Current_Stock'') \<and>
   \<not> minus_cell sample_host (cell [''Current_Stock'' \<mapsto> Str ''7'', ''Unit_Cost'' \<mapsto> Str ''2.5''] ''Minimum_Required'') \<and>
   \<not> minus_cell sample_host (cell [''Current_Stock'' \<mapsto> Str ''7'', ''Unit_Cost'' \<mapsto> Str ''2.5''] ''Maximum_Threshold'') \<and>
   \<not> minus_cell sample_host (cell [''Current_Stock'' \<mapsto> Str ''7'', ''Unit_Cost'' \<mapsto> Str ''2.5''] ''In_Process'') \<and>
   \<not> minus_cell sample_host (cell [''Current_Stock'' \<mapsto> Str ''7'', ''Unit_Cost'' \<mapsto> Str ''2.5''] ''Unit_Cost'') \<and>
   0 \<le> currentStock (sample_row [''Current_Stock'' \<mapsto> Str ''7'', ''Unit_Cost'' \<mapsto> Str ''2.5'']) \<and>
   0 \<le> minRequired (sample_row [''Current_Stock'' \<mapsto> Str ''7'', ''Unit_Cost'' \<mapsto> Str ''2.5'']) \<and>
   0 \<le> maxThreshold (sample_row [''Current_Stock'' \<mapsto> Str ''7'', ''Unit_Cost'' \<mapsto> Str ''2.5'']) \<and>
   0 \<le> inProcess (sample_row [''Current_Stock'' \<mapsto> Str ''7'', ''Unit_Cost'' \<mapsto> Str ''2.5'']) \<and>
   num_le (Fin 0) (unitCost (sample_row [''Current_Stock'' \<mapsto> Str ''7'', ''Unit_Cost'' \<mapsto> Str ''2.5'']))"
  using normalize_row_nonneg
    [of sample_host "[''Current_Stock'' \<mapsto> Str ''7'', ''Unit_Cost'' \<mapsto> Str ''2.5'']"
        "''2024-06-01''" "''k3x9q2m1z''"]
  by (simp add: sample_row_def cell_def minus_cell_def is_minus_def skip_ws_plain ws_heads_def)

text \<open>
  White space before the sign is skipped whatever its kind: a cell that holds a no-break
  space (U+00A0) and then \<open>-5\<close> is a minus cell, and its quantity is -5.
\<close>

lemma nbsp_minus_cell:
  "minus_cell h (Str (CHR 0xC2 # CHR 0xA0 # ''-5'')) \<and>
   currentStock (normalize_row h day tok [''Current_Stock'' \<mapsto> Str (CHR 0xC2 # CHR 0xA0 # ''-5'')])
     = - 5"
  by (simp add: minus_cell_def skip_ws_nbsp skip_ws_plain ws_heads_def is_minus_def
      normalize_row_def cell_def parseInt_def parseInt_str_nbsp or0_def)

text \<open>
  The claim as first stated, that the five numbers are never negative, fails on a row whose
  cells hold \<open>-5\<close> and \<open>-2.5\<close>.
\<close>

lemma parseInt_str_minus5: "parseInt_str ''-5'' = Some (- 5)"
  by (simp add: parseInt_str_def skip_ws_plain ws_heads_def strip_sign_def is_sign_def is_minus_def
      is_digit_in_def digit_val_def digits_value_def digit_num_def)

lemma parseFloat_str_minus: "parseFloat_str ''-2.5'' = Fin (- 2.5)"
  by (simp add: parseFloat_str_def str_decimal_def unsigned_decimal_def exponent_part_def
      skip_ws_plain ws_heads_def strip_sign_def is_sign_def is_minus_def is_dec_def is_digit_in_def
      digit_val_def digits_value_def digit_num_def pow10_def)

theorem negative_cell_counterexample:
  "currentStock (sample_row [''Current_Stock'' \<mapsto> Str ''-5'', ''Unit_Cost'' \<mapsto> Str ''-2.5'']) = - 5 \<and>
   unitCost (sample_row [''Current_Stock'' \<mapsto> Str ''-5'', ''Unit_Cost'' \<mapsto> Str ''-2.5'']) = Fin (- 2.5) \<and>
   \<not> 0 \<le> currentStock (sample_row [''Current_Stock'' \<mapsto> Str ''-5'', ''Unit_Cost'' \<mapsto> Str ''-2.5'']) \<and>
   \<not> num_le (Fin 0)
         (unitCost (sample_row [''Current_Stock'' \<mapsto> Str ''-5'', ''Unit_Cost'' \<mapsto> Str ''-2.5'']))"
  by (simp add: sample_row_def normalize_row_def cell_def parseInt_def parseFloat_def
      parseInt_str_minus5 parseFloat_str_minus or0_def num_or_def num_truthy_def num_le_def)

section \<open>The query engine\<close>



lemma parseInt_str_50: "parseInt_str ''50'' = Some 50"
  by (simp add: parseInt_str_def skip_ws_plain ws_heads_def strip_sign_def is_sign_def is_minus_def
      is_digit_in_def digit_val_def digits_value_def digit_num_def)

lemma get_spare_parts_Inr:
  "filteredData q (sparePartsData st) = Inr fd \<Longrightarrow>
   get_spare_parts q st =
     Inr \<lparr> r_data = slice fd ((or1 (parseInt_str (param_text (q_page q))) - 1)
                                 * or50 (parseInt_str (param_text (q_limit q))))
                        (or1 (parseInt_str (param_text (q_page q)))
                           * or50 (parseInt_str (param_text (q_limit q)))),
           r_total = length fd,
           r_page = or1 (parseInt_str (param_text (q_page q))),
           r_limit = or50 (parseInt_str (param_text (q_limit q))),
           r_totalPages =
             \<lceil>real (length fd) / real_of_int (or50 (parseInt_str (param_text (q_limit q))))\<rceil>,
           r_lastSync = lastSyncTime st \<rparr>"
  by (simp add: get_spare_parts_def Let_def)



lemma limit_50: "or50 (parseInt_str (param_text (Some ''50''))) = 50"
  by (simp add: param_text_def parseInt_str_50 or50_def)



lemma ceiling_120_50: "\<lceil>real (120::nat) / real_of_int 50\<rceil> = 3"
  by simp






lemma filteredData_no_criteria:
  "filteredData (no_criteria\<lparr> q_page := p, q_limit := l \<rparr>) d = Inr d"
  by (simp add: filteredData_def filter_steps_def sort_step_def no_criteria_def given_def)

lemma length_sample_parts: "length (sample_parts n) = n"
  by (simp add: sample_parts_def)

lemma store_sample: "sparePartsData (sample_store d) = d"
  and sync_sample: "lastSyncTime (sample_store d) = ''2024-06-01T00:00:00.000Z''"
  by (simp_all add: sample_store_def)










lemma parseInt_str_minus1: "parseInt_str ''-1'' = Some (- 1)"
  by (simp add: parseInt_str_def skip_ws_plain ws_heads_def strip_sign_def is_sign_def is_minus_def
      is_digit_in_def digit_val_def digits_value_def digit_num_def)

lemma parseInt_str_0: "parseInt_str ''0'' = Some 0"
  by (simp add: parseInt_str_def skip_ws_plain ws_heads_def strip_sign_def is_sign_def is_minus_def
      is_digit_in_def digit_val_def digits_value_def digit_num_def)

lemma parseInt_str_undefined: "parseInt_str ''undefined'' = None"
  by (simp add: parseInt_str_def skip_ws_plain ws_heads_def strip_sign_def is_sign_def
      is_digit_in_def digit_val_def)

lemma page_minus1: "or1 (parseInt_str (param_text (Some ''-1''))) = - 1"
  by (simp add: param_text_def parseInt_str_minus1 or1_def)

lemma page_0: "or1 (parseInt_str (param_text (Some ''0''))) = 1"
  by (simp add: param_text_def parseInt_str_0 or1_def)

lemma page_absent: "or1 (parseInt_str (param_text None)) = 1"
  by (simp add: param_text_def parseInt_str_undefined or1_def)

lemma limit_absent: "or50 (parseInt_str (param_text None)) = 50"
  by (simp add: param_text_def parseInt_str_undefined or50_def)

lemma slice_minus100_minus50: "length fd = 120 \<Longrightarrow> slice fd (- 100) (- 50) = take 50 (drop 20 fd)"
  by (simp add: slice_def slice_index_def)

text \<open>
  Claim C10. A page parameter that reads as 0 or as no number at all is page 1. A negative
  page \<open>p\<close> is kept: the slice runs from \<open>(p - 1) * limit\<close> to \<open>p * limit\<close>, both
  counted from the end of the filtered list. With 120 records, page -1 and limit 50 give
  records 21 to 70, fifty records and no error.
\<close>

theorem negative_page_counts_from_the_end:
  "(filteredData q (sparePartsData st) = Inr fd \<and> get_spare_parts q st = Inr res \<and>
    (parseInt_str (param_text (q_page q)) = None \<or>
     parseInt_str (param_text (q_page q)) = Some 0) \<longrightarrow>
      r_page res = 1 \<and> r_data res = slice fd 0 (r_limit res)) \<and>
   (filteredData q1 (sparePartsData st1) = Inr fd1 \<and> get_spare_parts q1 st1 = Inr res1 \<and>
    parseInt_str (param_text (q_page q1)) = Some p \<and> p < 0 \<longrightarrow>
      r_page res1 = p \<and>
      r_data res1 = slice fd1 ((p - 1) * r_limit res1) (p * r_limit res1)) \<and>
   (filteredData q2 (sparePartsData st2) = Inr fd2 \<and> length fd2 = 120 \<and>
    q_page q2 = Some ''-1'' \<and> q_limit q2 = Some ''50'' \<longrightarrow>
      get_spare_parts q2 st2 =
        Inr \<lparr> r_data = take 50 (drop 20 fd2), r_total = 120, r_page = - 1, r_limit = 50,
              r_totalPages = 3, r_lastSync = lastSyncTime st2 \<rparr> \<and>
      length (take 50 (drop 20 fd2)) = 50)"
proof (intro conjI impI)
  assume h: "filteredData q (sparePartsData st) = Inr fd \<and> get_spare_parts q st = Inr res \<and>
    (parseInt_str (param_text (q_page q)) = None \<or>
     parseInt_str (param_text (q_page q)) = Some 0)"
  then have fd: "filteredData q (sparePartsData st) = Inr fd"
    and got: "get_spare_parts q st = Inr res"
    and page: "or1 (parseInt_str (param_text (q_page q))) = 1"
    by (auto simp: or1_def)
  from got show "r_page res = 1"
    by (auto simp: get_spare_parts_Inr [OF fd] page)
  from got show "r_data res = slice fd 0 (r_limit res)"
    by (auto simp: get_spare_parts_Inr [OF fd] page)
next
  assume h: "filteredData q1 (sparePartsData st1) = Inr fd1 \<and>
    get_spare_parts q1 st1 = Inr res1 \<and>
    parseInt_str (param_text (q_page q1)) = Some p \<and> p < 0"
  then have fd: "filteredData q1 (sparePartsData st1) = Inr fd1"
    and got: "get_spare_parts q1 st1 = Inr res1"
    and page: "or1 (parseInt_str (param_text (q_page q1))) = p"
    by (auto simp: or1_def)
  from got show "r_page res1 = p"
    by (auto simp: get_spare_parts_Inr [OF fd] page)
  from got show "r_data res1 = slice fd1 ((p - 1) * r_limit res1) (p * r_limit res1)"
    by (auto simp: get_spare_parts_Inr [OF fd] page)
next
  assume h: "filteredData q2 (sparePartsData st2) = Inr fd2 \<and> length fd2 = 120 \<and>
    q_page q2 = Some ''-1'' \<and> q_limit q2 = Some ''50''"
  then have fd: "filteredData q2 (sparePartsData st2) = Inr fd2" and len: "length fd2 = 120"
    and page: "q_page q2 = Some ''-1''" and limit: "q_limit q2 = Some ''50''"
    by simp_all
  have "slice fd2 ((- 1 - 1) * 50) (- 1 * 50) = take 50 (drop 20 fd2)"
    using slice_minus100_minus50 [OF len] by simp
  then show "get_spare_parts q2 st2 =
        Inr \<lparr> r_data = take 50 (drop 20 fd2), r_total = 120, r_page = - 1, r_limit = 50,
              r_totalPages = 3, r_lastSync = lastSyncTime st2 \<rparr>"
    by (simp add: get_spare_parts_Inr [OF fd] page limit page_minus1 limit_50 len)
  from len show "length (take 50 (drop 20 fd2)) = 50"
    by simp
qed

lemma get_field_unknown: "k \<notin> set field_names \<Longrightarrow> get_field a k = Undefined"
  by (simp add: field_names_def get_field_def)

lemma compare_field_unknown:
  "k \<notin> set field_names \<Longrightarrow> compare_field k sortOrder a b = Fin 0"
  by (simp add: compare_field_def get_field_unknown js_gt_def)

lemma insert_sorted_never_positive:
  "(\<And>a b. \<not> positive (c a b)) \<Longrightarrow> insert_sorted c x ys = x # ys"
  by (cases ys) simp_all

lemma array_sort_never_positive:
  assumes "\<And>a b. \<not> positive (c a b)"
  shows "array_sort c xs = xs"
proof (induction xs)
  case Nil
  show ?case by (simp add: array_sort_def)
next
  case (Cons x xs)
  then have "foldr (insert_sorted c) xs [] = xs"
    by (simp add: array_sort_def)
  then show ?case
    by (simp add: array_sort_def insert_sorted_never_positive [OF assms])
qed

lemma array_sort_unknown:
  assumes "k \<notin> set field_names"
  shows "array_sort (compare_field k sortOrder) xs = xs"
proof (rule array_sort_never_positive)
  fix a b
  show "\<not> positive (compare_field k sortOrder a b)"
    by (simp add: compare_field_unknown [OF assms] positive_def)
qed

lemma sort_step_unknown:
  assumes "q_sortBy q = Some k" and "k \<notin> set field_names"
  shows "sort_step q d = d"
  using assms by (simp add: sort_step_def param_text_def array_sort_unknown)

lemma filteredData_unknown:
  assumes "q_sortBy q = Some k" and "k \<notin> set field_names"
  shows "filteredData q d = filteredData (q\<lparr> q_sortBy := None \<rparr>) d"
proof -
  have "filter_steps (q\<lparr> q_sortBy := None \<rparr>) d = filter_steps q d"
    by (simp add: filter_steps_def)
  moreover have "sort_step (q\<lparr> q_sortBy := None \<rparr>) d' = d'" for d'
    by (simp add: sort_step_def given_def)
  ultimately show ?thesis
    by (simp add: filteredData_def sort_step_unknown [OF assms] cong: sum.case_cong)
qed

lemma get_spare_parts_unknown:
  assumes "\<And>d. filteredData q d = filteredData (q\<lparr> q_sortBy := None \<rparr>) d"
  shows "get_spare_parts q st = get_spare_parts (q\<lparr> q_sortBy := None \<rparr>) st"
  by (simp add: get_spare_parts_def assms cong: sum.case_cong)

text \<open>
  Claim C8. Sorting on a name that is no field of the records cannot fail: both keys read as
  \<open>undefined\<close>, the comparator answers 0 on every pair, the stable sort returns its
  input, and the query answers exactly as it does with no sort at all: the page is cut from
  the filtered records in their original order and the total is their number.
\<close>

theorem unknown_sort_field_keeps_order:
  "(k \<notin> set field_names \<longrightarrow>
      compare_field k sortOrder a b = Fin 0 \<and>
      array_sort (compare_field k sortOrder) xs = xs) \<and>
   (q_sortBy q = Some k' \<and> k' \<notin> set field_names \<longrightarrow>
      filteredData q d = filteredData (q\<lparr> q_sortBy := None \<rparr>) d \<and>
      get_spare_parts q st = get_spare_parts (q\<lparr> q_sortBy := None \<rparr>) st) \<and>
   (q_sortBy q1 = Some k1 \<and> k1 \<notin> set field_names \<and>
    filteredData (q1\<lparr> q_sortBy := None \<rparr>) (sparePartsData st1) = Inr fd \<and>
    get_spare_parts q1 st1 = Inr res \<longrightarrow>
      r_total res = length fd \<and>
      r_data res = slice fd ((r_page res - 1) * r_limit res) (r_page res * r_limit res))"
proof (intro conjI impI)
  assume "k \<notin> set field_names"
  then show "compare_field k sortOrder a b = Fin 0"
    and "array_sort (compare_field k sortOrder) xs = xs"
    by (rule compare_field_unknown, rule array_sort_unknown)
next
  assume h: "q_sortBy q = Some k' \<and> k' \<notin> set field_names"
  then have same: "\<And>d. filteredData q d = filteredData (q\<lparr> q_sortBy := None \<rparr>) d"
    by (simp add: filteredData_unknown)
  show "filteredData q d = filteredData (q\<lparr> q_sortBy := None \<rparr>) d"
    by (rule same)
  show "get_spare_parts q st = get_spare_parts (q\<lparr> q_sortBy := None \<rparr>) st"
    by (rule get_spare_parts_unknown) (rule same)
next
  assume h: "q_sortBy q1 = Some k1 \<and> k1 \<notin> set field_names \<and>
    filteredData (q1\<lparr> q_sortBy := None \<rparr>) (sparePartsData st1) = Inr fd \<and>
    get_spare_parts q1 st1 = Inr res"
  then have fd: "filteredData q1 (sparePartsData st1) = Inr fd"
    by (simp add: filteredData_unknown)
  from h have got: "get_spare_parts q1 st1 = Inr res"
    by simp
  from got show "r_total res = length fd"
    by (auto simp: get_spare_parts_Inr [OF fd])
  from got show
    "r_data res = slice fd ((r_page res - 1) * r_limit res) (r_page res * r_limit res)"
    by (auto simp: get_spare_parts_Inr [OF fd])
qed


lemma take_drop_sample: "take 50 (drop 20 (sample_parts 120)) = map numbered [21 ..< 71]"
  by (simp add: sample_parts_def drop_map take_map)

lemma take_50_sample: "take 50 (sample_parts 120) = map numbered [1 ..< 51]"
  by (simp add: sample_parts_def take_map)

lemma slice_0_50: "length fd = 120 \<Longrightarrow> slice fd 0 50 = take 50 fd"
  by (simp add: slice_def slice_index_def)

theorem negative_page_counts_from_the_end_witness:
  "parseInt_str (param_text (q_page (no_criteria\<lparr> q_page := Some ''0'', q_limit := Some ''50'' \<rparr>))) = Some 0 \<and>
   get_spare_parts (no_criteria\<lparr> q_page := Some ''0'', q_limit := Some ''50'' \<rparr>) (sample_store (sample_parts 120))
     = Inr \<lparr> r_data = map numbered [1 ..< 51], r_total = 120, r_page = 1, r_limit = 50,
             r_totalPages = 3, r_lastSync = ''2024-06-01T00:00:00.000Z'' \<rparr> \<and>
   parseInt_str (param_text
       (q_page (no_criteria\<lparr> q_page := Some ''-1'', q_limit := Some ''50'' \<rparr>))) = Some (- 1) \<and>
   get_spare_parts (no_criteria\<lparr> q_page := Some ''-1'', q_limit := Some ''50'' \<rparr>)
       (sample_store (sample_parts 120))
     = Inr \<lparr> r_data = map numbered [21 ..< 71], r_total = 120, r_page = - 1, r_limit = 50,
             r_totalPages = 3, r_lastSync = ''2024-06-01T00:00:00.000Z'' \<rparr>"
proof -
  let ?d = "sample_parts 120"
  let ?q0 = "no_criteria\<lparr> q_page := Some ''0'', q_limit := Some ''50'' \<rparr>"
  let ?q1 = "no_criteria\<lparr> q_page := Some ''-1'', q_limit := Some ''50'' \<rparr>"
  let ?res0 = "\<lparr> r_data = map numbered [1 ..< 51], r_total = 120, r_page = 1, r_limit = 50,
             r_totalPages = 3, r_lastSync = ''2024-06-01T00:00:00.000Z'' \<rparr>"
  let ?res1 = "\<lparr> r_data = map numbered [21 ..< 71], r_total = 120, r_page = - 1,
             r_limit = 50, r_totalPages = 3, r_lastSync = ''2024-06-01T00:00:00.000Z'' \<rparr>"
  have len: "length ?d = 120"
    by (rule length_sample_parts)
  have f0: "filteredData ?q0 (sparePartsData (sample_store ?d)) = Inr ?d"
    and f1: "filteredData ?q1 (sparePartsData (sample_store ?d)) = Inr ?d"
    by (simp_all only: store_sample filteredData_no_criteria)
  have p0: "parseInt_str (param_text (q_page ?q0)) = Some 0"
    by (simp add: param_text_def parseInt_str_0)
  have p1: "parseInt_str (param_text (q_page ?q1)) = Some (- 1)"
    by (simp add: param_text_def parseInt_str_minus1)
  have "slice ?d ((1 - 1) * 50) (1 * 50) = map numbered [1 ..< 51]"
    using slice_0_50 [OF len] by (simp add: take_50_sample)
  then have g0: "get_spare_parts ?q0 (sample_store ?d) = Inr ?res0"
    by (simp add: get_spare_parts_Inr [OF f0] page_0 limit_50 sync_sample len)
  have "slice ?d ((- 1 - 1) * 50) (- 1 * 50) = map numbered [21 ..< 71]"
    using slice_minus100_minus50 [OF len] by (simp add: take_drop_sample)
  then have g1: "get_spare_parts ?q1 (sample_store ?d) = Inr ?res1"
    by (simp add: get_spare_parts_Inr [OF f1] page_minus1 limit_50 sync_sample len)
  have neg: "(- 1 :: int) < 0"
    by simp
  have q1: "q_page ?q1 = Some ''-1''" "q_limit ?q1 = Some ''50''"
    by simp_all
  note negative_page_counts_from_the_end
    [of ?q0 "sample_store ?d" ?d ?res0 ?q1 "sample_store ?d" ?d ?res1 "- 1"
        ?q1 "sample_store ?d" ?d]
  with f0 f1 g0 g1 p0 p1 neg q1 len show ?thesis
    by (simp only: simp_thms)
qed

lemma colour_unknown: "''colour'' \<notin> set field_names"
  by (simp add: field_names_def)

theorem unknown_sort_field_keeps_order_witness:
  "''colour'' \<notin> set field_names \<and>
   compare_field ''colour'' 1 (numbered 7) (numbered 4) = Fin 0 \<and>
   array_sort (compare_field ''colour'' 1) [numbered 7, numbered 4, numbered 9] = [numbered 7, numbered 4, numbered 9] \<and>
   get_spare_parts (no_criteria\<lparr> q_sortBy := Some ''colour'' \<rparr>)
       (sample_store [numbered 7, numbered 4, numbered 9])
     = get_spare_parts (no_criteria\<lparr> q_sortBy := Some ''colour'', q_sortBy := None \<rparr>)
         (sample_store [numbered 7, numbered 4, numbered 9]) \<and>
   get_spare_parts (no_criteria\<lparr> q_sortBy := Some ''colour'' \<rparr>)
       (sample_store [numbered 7, numbered 4, numbered 9])
     = Inr \<lparr> r_data = [numbered 7, numbered 4, numbered 9], r_total = 3, r_page = 1, r_limit = 50,
             r_totalPages = 1, r_lastSync = ''2024-06-01T00:00:00.000Z'' \<rparr>"
proof -
  let ?d = "[numbered 7, numbered 4, numbered 9]"
  let ?q = "no_criteria\<lparr> q_sortBy := Some ''colour'' \<rparr>"
  let ?res = "\<lparr> r_data = ?d, r_total = 3, r_page = 1, r_limit = 50,
             r_totalPages = 1, r_lastSync = ''2024-06-01T00:00:00.000Z'' \<rparr>"
  note inst = unknown_sort_field_keeps_order
    [of "''colour''" 1 "numbered 7" "numbered 4" ?d ?q "''colour''" ?d "sample_store ?d"
        ?q "''colour''" "sample_store ?d" ?d ?res]
  have sb: "q_sortBy ?q = Some ''colour''"
    by simp
  have qp: "q_page ?q = None" and ql: "q_limit ?q = None"
    by (simp_all add: no_criteria_def)
  have plain: "filteredData (?q\<lparr> q_sortBy := None \<rparr>) (sparePartsData (sample_store ?d)) = Inr ?d"
    by (simp add: store_sample filteredData_def filter_steps_def sort_step_def
        no_criteria_def given_def)
  from inst sb colour_unknown
  have same: "filteredData ?q ?d = filteredData (?q\<lparr> q_sortBy := None \<rparr>) ?d"
    by (simp only: simp_thms)
  with plain have f: "filteredData ?q (sparePartsData (sample_store ?d)) = Inr ?d"
    by (simp only: store_sample)
  have "slice ?d ((1 - 1) * 50) (1 * 50) = ?d"
    by (simp add: slice_def slice_index_def)
  then have g: "get_spare_parts ?q (sample_store ?d) = Inr ?res"
    by (simp add: get_spare_parts_Inr [OF f] qp ql page_absent limit_absent sync_sample)
  from inst sb colour_unknown plain g show ?thesis
    by (simp only: simp_thms)
qed

section \<open>The two sorts\<close>

lemma partName_named: "n \<noteq> [] \<Longrightarrow> partName (named n) = Str n"
  by (simp add: named_def sample_row_def normalize_row_def cell_def js_or_def)

lemma get_field_partName: "get_field a ''partName'' = partName a"
  by (simp add: get_field_def)

lemma str_lt_irrefl: "\<not> str_lt s s"
  by (induction s) simp_all

lemma client_sort_ignores_case:
  assumes "get_field a k = Str s" and "get_field b k = Str t"
    and "toLowerCase s = toLowerCase t"
  shows "compare_lowered k sortOrder a b = Inr (Fin 0)"
  using assms by (simp add: compare_lowered_def lowered_any_def js_gt_def str_lt_irrefl)

lemma lower_apple: "toLowerCase ''apple'' = ''apple''" 
  and lower_Apple: "toLowerCase ''Apple'' = ''apple''"
  and lower_Zebra: "toLowerCase ''Zebra'' = ''zebra''"
  by (simp_all add: toLowerCase_def lower_char_def)

lemma server_apple_Zebra:
  "compare_field ''partName'' 1 (named ''apple'') (named ''Zebra'') = Fin 1"
  by (simp add: compare_field_def get_field_partName partName_named js_gt_def)

lemma server_apple_Apple:
  "compare_field ''partName'' 1 (named ''apple'') (named ''Apple'') = Fin 1"
  by (simp add: compare_field_def get_field_partName partName_named js_gt_def)

lemma client_apple_Zebra:
  "compare_lowered ''partName'' 1 (named ''apple'') (named ''Zebra'') = Inr (Fin (- 1))"
  by (simp add: compare_lowered_def lowered_any_def get_field_partName partName_named
      lower_apple lower_Zebra)

lemma client_apple_Apple:
  "compare_lowered ''partName'' 1 (named ''apple'') (named ''Apple'') = Inr (Fin 0)"
  by (rule client_sort_ignores_case [where s = "''apple''" and t = "''Apple''"])
    (simp_all add: get_field_partName partName_named lower_apple lower_Apple)

text \<open>
  Claim C7 asks for a sort on a string field that ignores letter case. The client's
  \<open>filterSpareParts\<close> does that (\<open>client_sort_ignores_case\<close>); the server's comparator
  has no lowering step and compares code units. On the store with the names apple and
  Zebra, sorted by partName ascending, the server puts Zebra first and tells apple and
  Apple apart, while the client keeps apple first and finds apple and Apple equal.
\<close>

theorem server_sort_is_case_sensitive:
  "filteredData (no_criteria\<lparr> q_sortBy := Some ''partName'' \<rparr>)
       [named ''apple'', named ''Zebra'']
     = Inr [named ''Zebra'', named ''apple''] \<and>
   compare_field ''partName'' 1 (named ''apple'') (named ''Apple'') = Fin 1 \<and>
   filterSpareParts [named ''apple'', named ''Zebra'']
       (no_filters\<lparr> f_sortBy := Some ''partName'' \<rparr>)
     = Inr [named ''apple'', named ''Zebra''] \<and>
   compare_lowered ''partName'' 1 (named ''apple'') (named ''Apple'') = Inr (Fin 0)"
proof (intro conjI)
  show "filteredData (no_criteria\<lparr> q_sortBy := Some ''partName'' \<rparr>)
       [named ''apple'', named ''Zebra''] = Inr [named ''Zebra'', named ''apple'']"
    by (simp add: filteredData_def filter_steps_def sort_step_def no_criteria_def given_def
        param_text_def array_sort_def server_apple_Zebra positive_def)
  show "filterSpareParts [named ''apple'', named ''Zebra'']
       (no_filters\<lparr> f_sortBy := Some ''partName'' \<rparr>) = Inr [named ''apple'', named ''Zebra'']"
    by (simp add: filterSpareParts_def client_filter_steps_def client_sort_step_def
        no_filters_def given_def wanted_def param_text_def client_apple_Zebra positive_def)
qed (rule server_apple_Apple, rule client_apple_Apple)

section \<open>The aggregator\<close>

lemma lastUpdated_dated: "d \<noteq> [] \<Longrightarrow> lastUpdated (dated d) = Str d"
  by (simp add: dated_def sample_row_def normalize_row_def cell_def js_or_def)

lemma dashboard_stats_store:
  "sparePartsData (snd (dashboard_stats h st)) = array_sort (newest_first h) (sparePartsData st)"
  by (simp add: dashboard_stats_def Let_def)

lemma newest_first_jan_jun:
  "newest_first sample_host (dated ''2024-01-01'') (dated ''2024-06-01'') = Fin 13132800000"
  by (simp add: newest_first_def lastUpdated_dated new_Date_def sample_host_def
      date_number_def num_minus_def)

lemma jun_not_jan: "dated ''2024-06-01'' \<noteq> dated ''2024-01-01''"
proof
  assume "dated ''2024-06-01'' = dated ''2024-01-01''"
  then have "lastUpdated (dated ''2024-06-01'') = lastUpdated (dated ''2024-01-01'')"
    by (rule arg_cong)
  then have "Str ''2024-06-01'' = Str ''2024-01-01''"
    by (simp only: lastUpdated_dated list.simps simp_thms)
  then show False
    by simp
qed

text \<open>
  Claim C1 asks that the statistics leave the store as it was. The query handler sorts a
  copy (\<open>[...sparePartsData]\<close>); the statistics handler sorts the store's own array for
  \<open>recentActivity\<close>. On a store that holds a January record before a June record, the
  store after the statistics holds the June record first: it is not the store it was.
\<close>

theorem dashboard_stats_reorders_store:
  "sparePartsData (sample_store [dated ''2024-01-01'', dated ''2024-06-01''])
     = [dated ''2024-01-01'', dated ''2024-06-01''] \<and>
   sparePartsData (snd (dashboard_stats sample_host
       (sample_store [dated ''2024-01-01'', dated ''2024-06-01''])))
     = [dated ''2024-06-01'', dated ''2024-01-01''] \<and>
   snd (dashboard_stats sample_host
       (sample_store [dated ''2024-01-01'', dated ''2024-06-01'']))
     \<noteq> sample_store [dated ''2024-01-01'', dated ''2024-06-01'']"
proof (intro conjI)
  show before: "sparePartsData (sample_store [dated ''2024-01-01'', dated ''2024-06-01''])
     = [dated ''2024-01-01'', dated ''2024-06-01'']"
    by (simp only: store_sample)
  have sorted: "array_sort (newest_first sample_host)
      [dated ''2024-01-01'', dated ''2024-06-01'']
     = [dated ''2024-06-01'', dated ''2024-01-01'']"
    by (simp add: array_sort_def newest_first_jan_jun positive_def)
  show after: "sparePartsData (snd (dashboard_stats sample_host
       (sample_store [dated ''2024-01-01'', dated ''2024-06-01''])))
     = [dated ''2024-06-01'', dated ''2024-01-01'']"
    by (simp only: dashboard_stats_store store_sample sorted)
  show "snd (dashboard_stats sample_host
       (sample_store [dated ''2024-01-01'', dated ''2024-06-01'']))
     \<noteq> sample_store [dated ''2024-01-01'', dated ''2024-06-01'']"
    using after before jun_not_jan by auto
qed

section \<open>Re-normalization\<close>

subsection \<open>Printed integers read back\<close>

lemma digit_cases:
  assumes "d < (10::nat)"
  shows "d = 0 \<or> d = 1 \<or> d = 2 \<or> d = 3 \<or> d = 4 \<or> d = 5 \<or> d = 6 \<or> d = 7 \<or> d = 8 \<or> d = 9"
  using assms by arith

lemma digit_char_props:
  assumes "d < 10"
  shows "digit_val (digit_char d) = Some d"
    and "digit_char d \<notin> set ws_heads"
    and "digit_char d \<noteq> CHR ''-''" and "digit_char d \<noteq> CHR ''+''"
    and "digit_char d \<noteq> CHR ''x''" and "digit_char d \<noteq> CHR ''X''"
    and "digit_char d \<noteq> CHR ''.''" and "digit_char d \<noteq> CHR ''e''"
    and "digit_char d \<noteq> CHR ''E''" and "digit_char d \<noteq> CHR ''I''"
  using digit_cases [OF assms]
  by (auto simp: digit_char_def digit_val_def skip_ws_plain ws_heads_def)

lemma is_dec_digit_char: "d < 10 \<Longrightarrow> is_dec (digit_char d)"
  by (simp add: is_dec_def is_digit_in_def digit_char_props)

lemma digit_num_digit_char: "d < 10 \<Longrightarrow> digit_num (digit_char d) = d"
  by (simp add: digit_num_def digit_char_props)

lemma show_nat_digits: "list_all is_dec (show_nat n)"
proof (induction n rule: show_nat.induct)
  case (1 n)
  show ?case
  proof (cases "n < 10")
    case True
    then show ?thesis
      by (subst show_nat.simps) (simp add: is_dec_digit_char)
  next
    case False
    with 1 show ?thesis
      by (subst show_nat.simps) (simp add: is_dec_digit_char)
  qed
qed

lemma show_nat_nonempty: "show_nat n \<noteq> []"
  by (subst show_nat.simps) simp

lemma digits_value_snoc: "digits_value r (ds @ [c]) = digits_value r ds * r + digit_num c"
  by (simp add: digits_value_def)

lemma digits_value_show_nat: "digits_value 10 (show_nat n) = n"
proof (induction n rule: show_nat.induct)
  case (1 n)
  show ?case
  proof (cases "n < 10")
    case True
    then show ?thesis
      by (subst show_nat.simps) (simp add: digits_value_def digit_num_digit_char)
  next
    case False
    with 1 have "digits_value 10 (show_nat (n div 10)) = n div 10"
      by simp
    with False show ?thesis
      by (subst show_nat.simps) (simp add: digits_value_snoc digit_num_digit_char)
  qed
qed


lemma is_dec_chars: "is_dec c \<Longrightarrow> c \<in> set ''0123456789''"
  by (auto simp: is_dec_def is_digit_in_def digit_val_def split: if_splits option.splits)

lemma is_dec_plain:
  assumes "is_dec c"
  shows "c \<notin> set ws_heads" and "c \<noteq> CHR ''-''" and "c \<noteq> CHR ''+''" and "c \<noteq> CHR ''x''"
    and "c \<noteq> CHR ''X''" and "c \<noteq> CHR ''I''"
  using is_dec_chars [OF assms] by (auto simp: skip_ws_plain ws_heads_def)

lemma digits_not_hex:
  assumes "list_all is_dec ds"
  shows "take 2 ds \<noteq> ''0x''" and "take 2 ds \<noteq> ''0X''"
proof -
  have "take 2 ds \<noteq> ''0x'' \<and> take 2 ds \<noteq> ''0X''"
  proof (cases ds)
    case Nil
    then show ?thesis by simp
  next
    case (Cons c cs)
    show ?thesis
    proof (cases cs)
      case Nil
      with Cons show ?thesis by simp
    next
      case (Cons c' cs')
      with assms \<open>ds = c # cs\<close> have "is_dec c'"
        by simp
      then have "c' \<noteq> CHR ''x''" and "c' \<noteq> CHR ''X''"
        by (rule is_dec_plain)+
      with Cons \<open>ds = c # cs\<close> show ?thesis
        by (simp add: numeral_2_eq_2)
    qed
  qed
  then show "take 2 ds \<noteq> ''0x''" and "take 2 ds \<noteq> ''0X''"
    by simp_all
qed

lemma digits_plain_start:
  assumes "ds \<noteq> []" and "list_all is_dec ds"
  shows "skip_ws ds = ds" and "\<not> is_sign ds" and "\<not> is_minus ds"
    and "take 8 ds \<noteq> ''Infinity''"
proof -
  from assms obtain c cs where ds: "ds = c # cs" and c: "is_dec c"
    by (cases ds) auto
  from c show "skip_ws ds = ds"
    by (simp add: ds is_dec_plain skip_ws_plain)
  from c show "\<not> is_sign ds" and "\<not> is_minus ds"
    by (simp_all add: ds is_sign_def is_minus_def is_dec_plain)
  from c have "c \<noteq> CHR ''I''"
    by (rule is_dec_plain)
  then show "take 8 ds \<noteq> ''Infinity''"
    by (auto simp: ds numeral_eq_Suc)
qed

lemma takeWhile_digits: "list_all is_dec ds \<Longrightarrow> takeWhile is_dec ds = ds"
  and dropWhile_digits: "list_all is_dec ds \<Longrightarrow> dropWhile is_dec ds = []"
  by (simp_all add: list_all_iff)

lemma parseInt_str_digits:
  assumes "ds \<noteq> []" and "list_all is_dec ds"
  shows "parseInt_str ds = Some (int (digits_value 10 ds))"
proof -
  have tw: "takeWhile (is_digit_in 10) ds = ds"
    using takeWhile_digits [OF assms(2)] by (simp add: is_dec_def [abs_def])
  show ?thesis
    using assms
    by (simp add: parseInt_str_def digits_plain_start strip_sign_def digits_not_hex tw)
qed

lemma parseInt_str_minus_digits:
  assumes "ds \<noteq> []" and "list_all is_dec ds"
  shows "parseInt_str (CHR ''-'' # ds) = Some (- int (digits_value 10 ds))"
proof -
  have tw: "takeWhile (is_digit_in 10) ds = ds"
    using takeWhile_digits [OF assms(2)] by (simp add: is_dec_def [abs_def])
  show ?thesis
    using assms
    by (simp add: parseInt_str_def skip_ws_plain ws_heads_def strip_sign_def is_sign_def is_minus_def
        digits_not_hex tw)
qed

lemma parseInt_str_show_int: "parseInt_str (show_int i) = Some i"
  by (simp add: show_int_def parseInt_str_digits parseInt_str_minus_digits
      show_nat_nonempty show_nat_digits digits_value_show_nat)

lemma exponent_part_Nil: "exponent_part [] = (0, [])"
  by (simp add: exponent_part_def)

lemma unsigned_decimal_digits:
  assumes "ds \<noteq> []" and "list_all is_dec ds"
  shows "unsigned_decimal ds = Some (Fin (real (digits_value 10 ds)), [])"
  using assms
  by (simp add: unsigned_decimal_def digits_plain_start takeWhile_digits dropWhile_digits
      exponent_part_Nil pow10_def)

lemma parseFloat_str_digits:
  assumes "ds \<noteq> []" and "list_all is_dec ds"
  shows "parseFloat_str ds = Fin (real (digits_value 10 ds))"
  using assms
  by (simp add: parseFloat_str_def str_decimal_def digits_plain_start strip_sign_def
      unsigned_decimal_digits)

lemma parseFloat_str_minus_digits:
  assumes "ds \<noteq> []" and "list_all is_dec ds"
  shows "parseFloat_str (CHR ''-'' # ds) = Fin (- real (digits_value 10 ds))"
  using assms
  by (simp add: parseFloat_str_def str_decimal_def skip_ws_plain ws_heads_def strip_sign_def is_sign_def
      is_minus_def unsigned_decimal_digits)

lemma parseFloat_str_show_int: "parseFloat_str (show_int i) = Fin (of_int i)"
  by (simp add: show_int_def parseFloat_str_digits parseFloat_str_minus_digits
      show_nat_nonempty show_nat_digits digits_value_show_nat)


subsection \<open>A canonical record under the column names\<close>

lemma Number_toString_int:
  assumes "\<bar>n\<bar> < 10 ^ 21"
  shows "Number_toString h (Fin (of_int n)) = show_int n"
proof -
  have "real_of_int \<bar>n\<bar> < real_of_int (10 ^ 21)"
    using assms by (simp only: of_int_less_iff)
  then have "\<bar>real_of_int n\<bar> < 10 ^ 21"
    by simp
  then show ?thesis
    by (simp add: Number_toString_def)
qed

lemma quantity_back:
  "\<bar>n\<bar> < 10 ^ 21 \<Longrightarrow> or0 (parseInt h (Num (Fin (of_int n)))) = n"
  by (simp add: parseInt_def Number_toString_int parseInt_str_show_int or0_def)

lemma parseFloat_str_Infinity: "parseFloat_str ''Infinity'' = PInf"
  and parseFloat_str_minus_Infinity: "parseFloat_str ''-Infinity'' = NInf"
  by (simp_all add: parseFloat_str_def str_decimal_def unsigned_decimal_def skip_ws_plain ws_heads_def
      strip_sign_def is_sign_def is_minus_def)

lemma cost_back:
  assumes "n \<noteq> NaN" and "prints_back h n"
  shows "num_or (parseFloat h (Num n)) (Fin 0) = n"
proof (cases n)
  case NaN
  with assms show ?thesis by simp
next
  case (Fin x)
  have "parseFloat h (Num (Fin x)) = Fin x"
  proof (cases "of_int \<lfloor>x\<rfloor> = x \<and> \<bar>x\<bar> < 10 ^ 21")
    case True
    then have "Number_toString h (Fin x) = show_int \<lfloor>x\<rfloor>"
      by (simp add: Number_toString_def)
    with True show ?thesis
      by (simp add: parseFloat_def parseFloat_str_show_int)
  next
    case False
    with assms Fin have "parseFloat_str (numToString h x) = Fin x"
      by (auto simp: prints_back_def)
    with False show ?thesis
      by (auto simp: parseFloat_def Number_toString_def)
  qed
  with Fin show ?thesis
    by (simp add: num_or_def num_truthy_def)
next
  case PInf
  then show ?thesis
    by (simp add: parseFloat_def Number_toString_def parseFloat_str_Infinity num_or_def
        num_truthy_def)
next
  case NInf
  then show ?thesis
    by (simp add: parseFloat_def Number_toString_def parseFloat_str_minus_Infinity
        num_or_def num_truthy_def)
qed

lemma js_or_truthy: "truthy v \<Longrightarrow> js_or v d = v"
  by (simp add: js_or_def)

lemma truthy_js_or: "d \<noteq> [] \<Longrightarrow> truthy (js_or v (Str d))"
  by (simp add: js_or_def)

lemma cells_as_raw_row:
  "cell (as_raw_row p) ''Part_Code'' = partCode p"
  "cell (as_raw_row p) ''Equipment_Category'' = equipmentCategory p"
  "cell (as_raw_row p) ''Part_Name'' = partName p"
  "cell (as_raw_row p) ''Current_Stock'' = Num (Fin (of_int (currentStock p)))"
  "cell (as_raw_row p) ''Minimum_Required'' = Num (Fin (of_int (minRequired p)))"
  "cell (as_raw_row p) ''Maximum_Threshold'' = Num (Fin (of_int (maxThreshold p)))"
  "cell (as_raw_row p) ''In_Process'' = Num (Fin (of_int (inProcess p)))"
  "cell (as_raw_row p) ''Unit_Cost'' = Num (unitCost p)"
  "cell (as_raw_row p) ''Supplier'' = supplier p"
  "cell (as_raw_row p) ''Last_Updated'' = lastUpdated p"
  "cell (as_raw_row p) ''Status'' = status p"
  by (simp_all add: cell_def as_raw_row_def)

lemma renormalize_canonical:
  fixes p :: part
  assumes "truthy (equipmentCategory p)" and "truthy (partName p)" and "truthy (partCode p)"
    and "truthy (supplier p)" and "truthy (lastUpdated p)" and "truthy (status p)"
    and "\<bar>currentStock p\<bar> < 10 ^ 21" and "\<bar>minRequired p\<bar> < 10 ^ 21"
    and "\<bar>maxThreshold p\<bar> < 10 ^ 21" and "\<bar>inProcess p\<bar> < 10 ^ 21"
    and "unitCost p \<noteq> NaN" and "prints_back h (unitCost p)"
    and "stockLevel p = getStockLevel (currentStock p) (minRequired p)"
    and "totalValue p = num_times (Fin (of_int (currentStock p))) (unitCost p)"
  shows "normalize_row h day tok (as_raw_row p) = p\<lparr> part_id := partCode p \<rparr>"
  using assms
  by (cases p) (simp add: normalize_row_def cells_as_raw_row js_or_truthy quantity_back cost_back)


lemma normalize_row_canonical:
  fixes h day tok item
  defines "p \<equiv> normalize_row h day tok item"
  assumes "day \<noteq> []"
  shows "truthy (equipmentCategory p)" and "truthy (partName p)" and "truthy (partCode p)"
    and "truthy (supplier p)" and "truthy (lastUpdated p)" and "truthy (status p)"
    and "unitCost p \<noteq> NaN"
    and "stockLevel p = getStockLevel (currentStock p) (minRequired p)"
    and "totalValue p = num_times (Fin (of_int (currentStock p))) (unitCost p)"
    and "truthy (cell item ''Part_Code'') \<Longrightarrow> part_id p = partCode p"
  using assms(2)
  by (simp_all add: p_def normalize_row_def truthy_js_or num_or_def num_truthy_def js_or_def)

text \<open>
  Claim C4, as amended. The normalizer reads the columns \<open>Part_Code\<close>,
  \<open>Equipment_Category\<close>, \<open>Part_Name\<close> and so on, never the record's own field names. A
  normalized record that is handed back with each field under the column it was read from
  normalizes to itself, field for field, except that the identifier becomes the part code
  (so nothing changes when the row had a part code, and a synthetic identifier becomes
  \<open>N/A\<close>). This needs the four quantities to be below \<open>10^21\<close> in magnitude, where a
  number still prints as plain digits, a unit cost whose print reads back, and a non-empty
  clock date.
\<close>

theorem renormalize_under_column_names:
  "day \<noteq> [] \<and>
   \<bar>currentStock (normalize_row h day tok item)\<bar> < 10 ^ 21 \<and>
   \<bar>minRequired (normalize_row h day tok item)\<bar> < 10 ^ 21 \<and>
   \<bar>maxThreshold (normalize_row h day tok item)\<bar> < 10 ^ 21 \<and>
   \<bar>inProcess (normalize_row h day tok item)\<bar> < 10 ^ 21 \<and>
   prints_back h (unitCost (normalize_row h day tok item)) \<longrightarrow>
     normalize_row h day' tok' (as_raw_row (normalize_row h day tok item))
       = (normalize_row h day tok item)
           \<lparr> part_id := partCode (normalize_row h day tok item) \<rparr> \<and>
     (truthy (cell item ''Part_Code'') \<longrightarrow>
        normalize_row h day' tok' (as_raw_row (normalize_row h day tok item))
          = normalize_row h day tok item)"
proof (intro impI)
  define p where "p = normalize_row h day tok item"
  assume "day \<noteq> [] \<and>
   \<bar>currentStock (normalize_row h day tok item)\<bar> < 10 ^ 21 \<and>
   \<bar>minRequired (normalize_row h day tok item)\<bar> < 10 ^ 21 \<and>
   \<bar>maxThreshold (normalize_row h day tok item)\<bar> < 10 ^ 21 \<and>
   \<bar>inProcess (normalize_row h day tok item)\<bar> < 10 ^ 21 \<and>
   prints_back h (unitCost (normalize_row h day tok item))"
  then have day: "day \<noteq> []"
    and small: "\<bar>currentStock p\<bar> < 10 ^ 21" "\<bar>minRequired p\<bar> < 10 ^ 21"
      "\<bar>maxThreshold p\<bar> < 10 ^ 21" "\<bar>inProcess p\<bar> < 10 ^ 21"
    and cost: "prints_back h (unitCost p)"
    by (simp_all add: p_def)
  note canon = normalize_row_canonical [OF day, where h = h and tok = tok and item = item, folded p_def]
  have again: "normalize_row h day' tok' (as_raw_row p) = p\<lparr> part_id := partCode p \<rparr>"
    by (rule renormalize_canonical) (rule canon small cost)+
  moreover have "normalize_row h day' tok' (as_raw_row p) = p"
    if "truthy (cell item ''Part_Code'')"
  proof -
    from that have "part_id p = partCode p"
      by (rule canon)
    then have "p\<lparr> part_id := partCode p \<rparr> = p"
      by (cases p) simp
    with again show ?thesis
      by simp
  qed
  ultimately show "normalize_row h day' tok' (as_raw_row (normalize_row h day tok item))
       = (normalize_row h day tok item)
           \<lparr> part_id := partCode (normalize_row h day tok item) \<rparr> \<and>
     (truthy (cell item ''Part_Code'') \<longrightarrow>
        normalize_row h day' tok' (as_raw_row (normalize_row h day tok item))
          = normalize_row h day tok item)"
    by (simp add: p_def)
qed


text \<open>
  The claim as first stated fails twice. Handed back under its own field names, the record
  of a row named Bolt normalizes to the defaults: the name is lost. And even under the
  column names, a stock of \<open>10^21\<close> prints as \<open>1e+21\<close>, which \<open>parseInt\<close> reads as 1.
\<close>

lemma parseInt_str_5: "parseInt_str ''5'' = Some 5"
  and parseInt_str_10: "parseInt_str ''10'' = Some 10"
  and parseInt_str_1e21: "parseInt_str ''1e+21'' = Some 1"
  and parseInt_str_big: "parseInt_str ''1000000000000000000000'' = Some (10 ^ 21)"
  by (simp_all add: parseInt_str_def skip_ws_plain ws_heads_def strip_sign_def is_sign_def is_minus_def
      is_digit_in_def digit_val_def digits_value_def digit_num_def)

lemma parseFloat_str_2_5: "parseFloat_str ''2.5'' = Fin 2.5"
  by (simp add: parseFloat_str_def str_decimal_def unsigned_decimal_def exponent_part_def
      skip_ws_plain ws_heads_def strip_sign_def is_sign_def is_minus_def is_dec_def is_digit_in_def
      digit_val_def digits_value_def digit_num_def pow10_def)

lemma sample_prints_2_5: "prints_back sample_host (Fin 2.5)"
  by (simp add: prints_back_def sample_host_def parseFloat_str_2_5)

lemma sample_prints_1e21: "Number_toString sample_host (Fin (of_int (10 ^ 21))) = ''1e+21''"
  by (simp add: Number_toString_def sample_host_def)

theorem renormalize_counterexample:
  "partName (named ''Bolt'') = Str ''Bolt'' \<and>
   partName (sample_row (own_fields (named ''Bolt''))) = Str ''Unknown Part'' \<and>
   currentStock (sample_row [''Current_Stock'' \<mapsto> Str ''1000000000000000000000''])
     = 10 ^ 21 \<and>
   currentStock
     (sample_row (as_raw_row (sample_row [''Current_Stock'' \<mapsto> Str ''1000000000000000000000''])))
     = 1"
proof (intro conjI)
  show "partName (named ''Bolt'') = Str ''Bolt''"
    by (simp add: partName_named)
  show "partName (sample_row (own_fields (named ''Bolt''))) = Str ''Unknown Part''"
    by (simp add: sample_row_def normalize_row_def cell_def own_fields_def field_names_def
        js_or_def)
  show big: "currentStock (sample_row [''Current_Stock'' \<mapsto> Str ''1000000000000000000000''])
     = 10 ^ 21"
    by (simp add: sample_row_def normalize_row_def cell_def parseInt_def parseInt_str_big
        or0_def)
  have "currentStock (sample_row (as_raw_row p))
      = or0 (parseInt_str (Number_toString sample_host (Fin (of_int (currentStock p)))))" for p
    by (simp add: sample_row_def normalize_row_def cells_as_raw_row parseInt_def)
  then show "currentStock
     (sample_row (as_raw_row (sample_row [''Current_Stock'' \<mapsto> Str ''1000000000000000000000''])))
     = 1"
    by (simp only: big sample_prints_1e21 parseInt_str_1e21 or0_def option.case)
qed

theorem renormalize_under_column_names_witness:
  "\<bar>currentStock (sample_row [''Part_Code'' \<mapsto> Str ''A1'', ''Current_Stock'' \<mapsto> Str ''5'',
        ''Minimum_Required'' \<mapsto> Str ''10'', ''Unit_Cost'' \<mapsto> Str ''2.5''])\<bar> < 10 ^ 21 \<and>
   prints_back sample_host
     (unitCost (sample_row [''Part_Code'' \<mapsto> Str ''A1'', ''Current_Stock'' \<mapsto> Str ''5'',
        ''Minimum_Required'' \<mapsto> Str ''10'', ''Unit_Cost'' \<mapsto> Str ''2.5''])) \<and>
   truthy (cell [''Part_Code'' \<mapsto> Str ''A1'', ''Current_Stock'' \<mapsto> Str ''5'',
        ''Minimum_Required'' \<mapsto> Str ''10'', ''Unit_Cost'' \<mapsto> Str ''2.5''] ''Part_Code'') \<and>
   normalize_row sample_host ''2024-07-15'' ''zzzzzzzzz''
     (as_raw_row (sample_row [''Part_Code'' \<mapsto> Str ''A1'', ''Current_Stock'' \<mapsto> Str ''5'',
        ''Minimum_Required'' \<mapsto> Str ''10'', ''Unit_Cost'' \<mapsto> Str ''2.5'']))
     = sample_row [''Part_Code'' \<mapsto> Str ''A1'', ''Current_Stock'' \<mapsto> Str ''5'',
        ''Minimum_Required'' \<mapsto> Str ''10'', ''Unit_Cost'' \<mapsto> Str ''2.5'']"
proof -
  let ?item = "[''Part_Code'' \<mapsto> Str ''A1'', ''Current_Stock'' \<mapsto> Str ''5'',
        ''Minimum_Required'' \<mapsto> Str ''10'', ''Unit_Cost'' \<mapsto> Str ''2.5'']"
  have cs: "currentStock (sample_row ?item) = 5"
    and mr: "minRequired (sample_row ?item) = 10"
    and mt: "maxThreshold (sample_row ?item) = 0"
    and ip: "inProcess (sample_row ?item) = 0"
    by (simp_all add: sample_row_def normalize_row_def cell_def parseInt_def parseInt_str_5
        parseInt_str_10 parseInt_str_undefined or0_def)
  have uc: "unitCost (sample_row ?item) = Fin 2.5"
    by (simp add: sample_row_def normalize_row_def cell_def parseFloat_def parseFloat_str_2_5
        num_or_def num_truthy_def)
  have pc: "truthy (cell ?item ''Part_Code'')"
    by (simp add: cell_def)
  have day: "''2024-06-01'' \<noteq> []"
    by simp
  note inst = renormalize_under_column_names
    [of "''2024-06-01''" sample_host "''k3x9q2m1z''" ?item "''2024-07-15''" "''zzzzzzzzz''",
     folded sample_row_def]
  have hyps: "''2024-06-01'' \<noteq> [] \<and>
      \<bar>currentStock (sample_row ?item)\<bar> < 10 ^ 21 \<and>
      \<bar>minRequired (sample_row ?item)\<bar> < 10 ^ 21 \<and>
      \<bar>maxThreshold (sample_row ?item)\<bar> < 10 ^ 21 \<and>
      \<bar>inProcess (sample_row ?item)\<bar> < 10 ^ 21 \<and>
      prints_back sample_host (unitCost (sample_row ?item))"
    using sample_prints_2_5 by (simp add: cs mr mt ip uc)
  note again = inst [THEN mp, OF hyps, THEN conjunct2, THEN mp, OF pc]
  from hyps pc again show ?thesis
    by (simp only: simp_thms)
qed

end
